theory Spec2Isabelle
  imports Main
begin

text \<open>
  A model of the trackers of kubedog: the pod tracker with its log follower and the loop
  that feeds the consumer's callbacks (\<open>pkg/tracker/pod.go\<close>), the Deployment tracker
  and the DaemonSet tracker. A loop around a \<open>select\<close> is a function of the list of
  messages the loop receives, in the order it receives them; what it sends on its
  channels and what it starts is the list it returns, next to the way the loop ends. The
  cluster client and the helpers of other packages are arguments of the functions.
\<close>

section \<open>Common values of the tracker packages\<close>

text \<open>
  Go's \<open>error\<close> interface: the model keeps the three sentinels of the tracker
  package apart from every other error value; a nil error is \<open>None\<close> of
  \<open>error option\<close>.
\<close>

datatype error = StopTrack | ErrTrackTimeout | ErrTrackInterrupted | OtherError string

text \<open>
  What a loop built around \<open>select\<close> does on one received message: it goes on
  with an updated tracker, it returns from the function, or the goroutine panics (a nil
  pointer is dereferenced).
\<close>

datatype 's outcome = Continue 's | Return "error option" | Panic

section \<open>pkg/tracker/pod.go\<close>

subsection \<open>Data\<close>

record LogLine =
  Timestamp :: string
  Data :: string

record ContainerLogChunk =
  ContainerName :: string
  LogLines :: "LogLine list"

record ContainerError =
  err_Message :: string
  err_ContainerName :: string

text \<open>
  Modelled from the spec: the constants of \<open>TrackerState\<close> are declared in
  another file of the package; the spec lists the container states Initial, Waiting,
  Running and Terminated, and the pod tracker moves from Initial to ResourceAdded.
\<close>

datatype TrackerState =
  Initial | ResourceAdded | ContainerWaiting | ContainerRunning | ContainerTerminated

text \<open>The fields of \<open>corev1.Pod\<close> that the trackers read.\<close>

record ContainerStateWaiting =
  Reason :: string
  Message :: string

record ContainerState =
  Waiting :: "ContainerStateWaiting option"
  Running :: "unit option"
  Terminated :: "unit option"

record ContainerStatus =
  cs_Name :: string
  cs_State :: ContainerState

record PodStatus =
  Phase :: string
  InitContainerStatuses :: "ContainerStatus list"
  ContainerStatuses :: "ContainerStatus list"

record PodSpec =
  InitContainers :: "string list"
  Containers :: "string list"

record Pod =
  pod_Name :: string
  pod_Spec :: PodSpec
  pod_Status :: PodStatus

definition PodSucceeded :: string where
  "PodSucceeded = ''Succeeded''"

definition PodFailed :: string where
  "PodFailed = ''Failed''"

subsection \<open>TrackPod: the loop that turns channel messages into callbacks\<close>

record PodFeed =
  feed_Added :: "error option"
  feed_Succeeded :: "error option"
  feed_Failed :: "error option"
  feed_ContainerLogChunk :: "ContainerLogChunk \<Rightarrow> error option"
  feed_ContainerError :: "ContainerError \<Rightarrow> error option"

text \<open>One message received by the \<open>select\<close> of \<open>TrackPod\<close>, one per case.\<close>

datatype TrackPodEvent =
    recv_ContainerLogChunk ContainerLogChunk
  | recv_ContainerError ContainerError
  | recv_Added
  | recv_Succeeded
  | recv_Failed
  | recv_errorChan "error option"
  | recv_doneChan

text \<open>
  One pass through the \<open>select\<close>: \<open>None\<close> when the loop goes round again,
  \<open>Some r\<close> when \<open>TrackPod\<close> returns \<open>r\<close>. The order of the two tests on
  \<open>err\<close> is the order of the source, case by case.
\<close>

fun TrackPod_select :: "PodFeed \<Rightarrow> TrackPodEvent \<Rightarrow> error option option" where
  "TrackPod_select feed (recv_ContainerLogChunk chunk) =
     (let err = feed_ContainerLogChunk feed chunk in
      if err = Some StopTrack then Some None
      else if err \<noteq> None then Some err
      else None)"
| "TrackPod_select feed (recv_ContainerError containerError) =
     (let err = feed_ContainerError feed containerError in
      if err \<noteq> None then Some err
      else if err = Some StopTrack then Some None
      else None)"
| "TrackPod_select feed recv_Added =
     (let err = feed_Added feed in
      if err = Some StopTrack then Some None
      else if err \<noteq> None then Some err
      else None)"
| "TrackPod_select feed recv_Succeeded =
     (let err = feed_Succeeded feed in
      if err \<noteq> None then Some err
      else if err = Some StopTrack then Some None
      else None)"
| "TrackPod_select feed recv_Failed =
     (let err = feed_Failed feed in
      if err \<noteq> None then Some err
      else if err = Some StopTrack then Some None
      else None)"
| "TrackPod_select feed (recv_errorChan err) = Some err"
| "TrackPod_select feed recv_doneChan = Some None"

text \<open>
  The loop over the messages in the order the \<open>select\<close> receives them. When the
  messages run out the loop is still waiting: \<open>None\<close>.
\<close>

fun TrackPod :: "PodFeed \<Rightarrow> TrackPodEvent list \<Rightarrow> error option option" where
  "TrackPod feed [] = None"
| "TrackPod feed (ev # evs) =
     (case TrackPod_select feed ev of
        Some r \<Rightarrow> Some r
      | None \<Rightarrow> TrackPod feed evs)"

subsection \<open>The pod tracker\<close>

record PodTracker =
  pt_State :: TrackerState
  ContainerTrackerStates :: "string \<rightharpoonup> TrackerState"
  TrackedContainers :: "string list"
  pt_lastObject :: "Pod option"

definition NewPodTracker :: PodTracker where
  "NewPodTracker =
     \<lparr>pt_State = Initial, ContainerTrackerStates = Map.empty,
      TrackedContainers = [], pt_lastObject = None\<rparr>"

text \<open>
  What the tracker's loop sends or starts: the three lifecycle channels, the
  \<open>ContainerError\<close> channel, and the goroutine started for a container.
\<close>

datatype PodOut =
    send_Added
  | send_Succeeded
  | send_Failed
  | send_ContainerError ContainerError
  | go_trackContainer string

text \<open>\<open>fmt.Sprintf("%s: %s", a, b)\<close>.\<close>

definition Sprintf_colon :: "string \<Rightarrow> string \<Rightarrow> string" where
  "Sprintf_colon a b = a @ '': '' @ b"

text \<open>
  The body of the loop over \<open>allContainerStatuses\<close> in
  \<open>handleContainersState\<close>. The value \<open>oldState\<close> only feeds a debug print.
\<close>

definition handleContainerStatus ::
  "PodTracker \<Rightarrow> ContainerStatus \<Rightarrow> PodOut list \<times> PodTracker" where
  "handleContainerStatus pod cs =
     (let (out1, pod1) =
        (case Waiting (cs_State cs) of
           None \<Rightarrow> ([], pod)
         | Some w \<Rightarrow>
             (let pod' = pod\<lparr>ContainerTrackerStates :=
                              (ContainerTrackerStates pod)(cs_Name cs \<mapsto> ContainerWaiting)\<rparr> in
              if Reason w = ''ImagePullBackOff'' \<or> Reason w = ''ErrImagePull''
                 \<or> Reason w = ''CrashLoopBackOff''
              then ([send_ContainerError
                       \<lparr>err_Message = Sprintf_colon (Reason w) (Message w),
                        err_ContainerName = cs_Name cs\<rparr>], pod')
              else ([], pod')));
          pod2 =
        (case Running (cs_State cs) of
           None \<Rightarrow> pod1
         | Some _ \<Rightarrow> pod1\<lparr>ContainerTrackerStates :=
                              (ContainerTrackerStates pod1)(cs_Name cs \<mapsto> ContainerRunning)\<rparr>);
          pod3 =
        (case Terminated (cs_State cs) of
           None \<Rightarrow> pod2
         | Some _ \<Rightarrow> pod2\<lparr>ContainerTrackerStates :=
                              (ContainerTrackerStates pod2)(cs_Name cs \<mapsto> ContainerTerminated)\<rparr>)
      in (out1, pod3))"

fun handleContainerStatuses ::
  "PodTracker \<Rightarrow> ContainerStatus list \<Rightarrow> PodOut list \<times> PodTracker" where
  "handleContainerStatuses pod [] = ([], pod)"
| "handleContainerStatuses pod (cs # rest) =
     (let (out1, pod1) = handleContainerStatus pod cs;
          (out2, pod2) = handleContainerStatuses pod1 rest
      in (out1 @ out2, pod2))"

text \<open>\<open>handleContainersState\<close>: what it sends, the tracker after it, and its error (always nil).\<close>

definition handleContainersState ::
  "PodTracker \<Rightarrow> Pod \<Rightarrow> PodOut list \<times> PodTracker \<times> error option" where
  "handleContainersState pod object =
     (let allContainerStatuses =
            InitContainerStatuses (pod_Status object) @ ContainerStatuses (pod_Status object);
          (out, pod') = handleContainerStatuses pod allContainerStatuses
      in (out, pod', None))"

text \<open>\<open>handlePodState\<close>: what it sends, the tracker after it, and \<open>(done, err)\<close>.\<close>

definition handlePodState ::
  "PodTracker \<Rightarrow> Pod \<Rightarrow> PodOut list \<times> PodTracker \<times> bool \<times> error option" where
  "handlePodState pod object =
     (case handleContainersState pod object of
        (out, pod', Some err) \<Rightarrow> (out, pod', False, Some err)
      | (out, pod', None) \<Rightarrow>
          (if length (TrackedContainers pod') = 0 then
             (if Phase (pod_Status object) = PodSucceeded
              then (out @ [send_Succeeded], pod', True, None)
              else if Phase (pod_Status object) = PodFailed
              then (out @ [send_Failed], pod', True, None)
              else (out, pod', False, None))
           else (out, pod', False, None)))"

text \<open>
  The loop of \<open>runContainersTrackers\<close> over the container names of the manifest.
\<close>

fun startContainers :: "PodTracker \<Rightarrow> string list \<Rightarrow> PodOut list \<times> PodTracker" where
  "startContainers pod [] = ([], pod)"
| "startContainers pod (containerName # rest) =
     (let pod1 = pod\<lparr>ContainerTrackerStates :=
                       (ContainerTrackerStates pod)(containerName \<mapsto> Initial),
                     TrackedContainers := TrackedContainers pod @ [containerName]\<rparr>;
          (out, pod2) = startContainers pod1 rest
      in (go_trackContainer containerName # out, pod2))"

text \<open>
  \<open>runContainersTrackers\<close>; \<open>get\<close> is the answer of the cluster to the
  \<open>Get\<close> of the pod.
\<close>

definition runContainersTrackers ::
  "(error + Pod) \<Rightarrow> PodTracker \<Rightarrow> error + (PodOut list \<times> PodTracker)" where
  "runContainersTrackers get pod =
     (case get of
        Inl err \<Rightarrow> Inl err
      | Inr podManifest \<Rightarrow>
          Inr (startContainers pod
                 (InitContainers (pod_Spec podManifest) @ Containers (pod_Spec podManifest))))"

text \<open>One message received by the \<open>select\<close> of \<open>PodTracker.Track\<close>.\<close>

datatype PodEvent =
    containerDone string
  | objectAdded Pod
  | objectModified Pod
  | objectDeleted Pod
  | pt_Context_Done
  | pt_errors error

text \<open>
  The three cases that handle a pod state end alike: the error of
  \<open>handlePodState\<close> is returned, \<open>done\<close> returns nil, otherwise the loop goes on.
\<close>

definition afterHandlePodState ::
  "PodOut list \<Rightarrow> PodOut list \<times> PodTracker \<times> bool \<times> error option
     \<Rightarrow> PodOut list \<times> PodTracker outcome" where
  "afterHandlePodState pre r =
     (case r of (out, pod', done, err) \<Rightarrow>
        (if err \<noteq> None then (pre @ out, Return err)
         else if done then (pre @ out, Return None)
         else (pre @ out, Continue pod')))"

fun PodTracker_select ::
  "(error + Pod) \<Rightarrow> PodTracker \<Rightarrow> PodEvent \<Rightarrow> PodOut list \<times> PodTracker outcome" where
  "PodTracker_select get pod (containerDone containerName) =
     (let pod1 = pod\<lparr>TrackedContainers :=
                       filter (\<lambda>name. name \<noteq> containerName) (TrackedContainers pod)\<rparr>
      in case pt_lastObject pod1 of
           None \<Rightarrow> ([], Panic)
         | Some object \<Rightarrow> afterHandlePodState [] (handlePodState pod1 object))"
| "PodTracker_select get pod (objectAdded object) =
     (let pod1 = pod\<lparr>pt_lastObject := Some object\<rparr> in
      if pt_State pod1 = Initial then
        (let pod2 = pod1\<lparr>pt_State := ResourceAdded\<rparr> in
         case runContainersTrackers get pod2 of
           Inl err \<Rightarrow> ([send_Added], Return (Some err))
         | Inr (out, pod3) \<Rightarrow>
             afterHandlePodState (send_Added # out) (handlePodState pod3 object))
      else afterHandlePodState [] (handlePodState pod1 object))"
| "PodTracker_select get pod (objectModified object) =
     (let pod1 = pod\<lparr>pt_lastObject := Some object\<rparr>
      in afterHandlePodState [] (handlePodState pod1 object))"
| "PodTracker_select get pod (objectDeleted object) = ([], Return None)"
| "PodTracker_select get pod pt_Context_Done = ([], Return (Some ErrTrackTimeout))"
| "PodTracker_select get pod (pt_errors err) = ([], Return (Some err))"

text \<open>
  The loop of \<open>Track\<close> over the messages in the order they are received; when they
  run out the loop is waiting in its \<open>select\<close>, with the tracker as it stands.
\<close>

fun PodTracker_loop ::
  "(error + Pod) \<Rightarrow> PodTracker \<Rightarrow> PodEvent list \<Rightarrow> PodOut list \<times> PodTracker outcome" where
  "PodTracker_loop get pod [] = ([], Continue pod)"
| "PodTracker_loop get pod (ev # evs) =
     (case PodTracker_select get pod ev of
        (out, Continue pod') \<Rightarrow>
          (let (out', r) = PodTracker_loop get pod' evs in (out @ out', r))
      | (out, r) \<Rightarrow> (out, r))"

subsection \<open>The log follower\<close>

text \<open>\<open>strings.Index\<close> for a separator of one byte: where it first occurs.\<close>

fun Index :: "string \<Rightarrow> char \<Rightarrow> nat option" where
  "Index [] sep = None"
| "Index (c # s) sep = (if c = sep then Some 0 else map_option Suc (Index s sep))"

text \<open>
  \<open>strings.SplitN\<close> for a separator of one byte and a count that is not negative:
  at most \<open>n\<close> pieces, the last one the unsplit rest.
\<close>

fun SplitN :: "string \<Rightarrow> char \<Rightarrow> nat \<Rightarrow> string list" where
  "SplitN s sep 0 = []"
| "SplitN s sep (Suc 0) = [s]"
| "SplitN s sep (Suc (Suc n)) =
     (case Index s sep of
        None \<Rightarrow> [s]
      | Some i \<Rightarrow> take i s # SplitN (drop (Suc i) s) sep (Suc n))"

text \<open>
  The loop over the \<open>n\<close> bytes of one read: the bytes still to look at, the line
  buffer and the lines of the chunk so far.
\<close>

fun scanChunk :: "string \<Rightarrow> string \<Rightarrow> LogLine list \<Rightarrow> string \<times> LogLine list" where
  "scanChunk [] lineBuf chunkLines = (lineBuf, chunkLines)"
| "scanChunk (bt # rest) lineBuf chunkLines =
     (if bt = CHR 0x0A then
        (let line = lineBuf;
             lineParts = SplitN line CHR '' '' 2
         in if length lineParts = 2
            then scanChunk rest []
                   (chunkLines @ [\<lparr>Timestamp = lineParts ! 0, Data = lineParts ! 1\<rparr>])
            else scanChunk rest [] chunkLines)
      else scanChunk rest (lineBuf @ [bt]) chunkLines)"

text \<open>
  One call of \<open>Read\<close>: the bytes it put into the buffer, its error, and whether
  the context is done when the loop body ends.
\<close>

datatype ReadError = NoError | EOF | ReadFailed error

record ReadResult =
  rd_bytes :: string
  rd_err :: ReadError
  rd_ctxDone :: bool

text \<open>
  The loop of \<open>followContainerLogs\<close> over the reads: the chunks sent on
  \<open>ContainerLogChunk\<close> and what the function returns (\<open>None\<close> while it is still
  reading).
\<close>

fun followLoop ::
  "string \<Rightarrow> string \<Rightarrow> ReadResult list \<Rightarrow> ContainerLogChunk list \<times> error option option" where
  "followLoop containerName lineBuf [] = ([], None)"
| "followLoop containerName lineBuf (rd # rds) =
     (let (lineBuf', sent) =
            (if length (rd_bytes rd) > 0 then
               (let (lb, chunkLines) = scanChunk (rd_bytes rd) lineBuf []
                in (lb, [\<lparr>ContainerName = containerName, LogLines = chunkLines\<rparr>]))
             else (lineBuf, []))
      in case rd_err rd of
           EOF \<Rightarrow> (sent, Some None)
         | ReadFailed err \<Rightarrow> (sent, Some (Some err))
         | NoError \<Rightarrow>
             (if rd_ctxDone rd then (sent, Some (Some ErrTrackTimeout))
              else (let (sent', r) = followLoop containerName lineBuf' rds
                    in (sent @ sent', r))))"

text \<open>\<open>followContainerLogs\<close>; \<open>stream\<close> is the error of opening the log stream.\<close>

definition followContainerLogs ::
  "string \<Rightarrow> error option \<Rightarrow> ReadResult list \<Rightarrow> ContainerLogChunk list \<times> error option option" where
  "followContainerLogs containerName stream reads =
     (case stream of
        Some err \<Rightarrow> ([], Some (Some err))
      | None \<Rightarrow> followLoop containerName [] reads)"

section \<open>pkg/tracker/deployment/tracker.go\<close>

subsection \<open>Data\<close>

text \<open>
  Modelled from the spec: \<open>tracker.ReadyStatus\<close> is declared in the tracker
  package; the spec gives it an \<open>isReady\<close> flag, a message and counts, and the
  tracker reads the flag only.
\<close>

record ReadyStatus =
  IsReady :: bool

text \<open>
  The fields of \<open>appsv1.Deployment\<close> that the tracker reads. \<open>Replicas\<close> is a
  pointer in the source (\<open>None\<close> is nil). The status of the cluster object is kept
  abstract (\<open>'st\<close>), as is the \<open>PodStatus\<close> of the pod package (\<open>'ps\<close>).
\<close>

record DeploymentSpec =
  Replicas :: "int option"

record 'st Deployment =
  dep_Name :: string
  dep_Spec :: DeploymentSpec
  dep_Status :: 'st

record ApiReplicaSet =
  ars_Name :: string

record ReplicaSet =
  rs_Name :: string
  IsNew :: bool

record ReplicaSetPod =
  rsp_Name :: string
  rsp_ReplicaSet :: ReplicaSet

record ReplicaSetPodLogChunk =
  lc_ContainerLogChunk :: ContainerLogChunk
  lc_PodName :: string
  lc_ReplicaSet :: ReplicaSet

record ReplicaSetPodError =
  pe_ContainerError :: ContainerError
  pe_PodName :: string
  pe_ReplicaSet :: ReplicaSet

record ('st, 'ps) DeploymentStatus =
  Pods :: "string \<rightharpoonup> 'ps"
  embedded_DeploymentStatus :: 'st
  DesiredReplicas :: int
  IsFailed :: bool
  FailedReason :: string
  ReadyStatus :: ReadyStatus

text \<open>
  \<open>NewDeploymentStatus\<close> dereferences \<open>kubeSpec.Replicas\<close>: on a nil pointer it
  panics, which is \<open>None\<close> here.
\<close>

definition NewDeploymentStatus ::
  "ReadyStatus \<Rightarrow> bool \<Rightarrow> string \<Rightarrow> DeploymentSpec \<Rightarrow> 'st \<Rightarrow> (string \<rightharpoonup> 'ps)
     \<Rightarrow> ('st, 'ps) DeploymentStatus option" where
  "NewDeploymentStatus readyStatus isFailed failedReason kubeSpec kubeStatus podsStatuses =
     (case Replicas kubeSpec of
        None \<Rightarrow> None
      | Some n \<Rightarrow>
          Some \<lparr>Pods = Map.empty ++ podsStatuses, embedded_DeploymentStatus = kubeStatus,
                DesiredReplicas = n, IsFailed = isFailed, FailedReason = failedReason,
                ReadyStatus = readyStatus\<rparr>)"

record ('st, 'ps) Tracker =
  CurrentReady :: bool
  dep_State :: string
  FinalDeploymentStatus :: "'st option"
  knownReplicaSets :: "string \<rightharpoonup> ApiReplicaSet"
  dep_lastObject :: "'st Deployment option"
  readyStatus :: ReadyStatus
  failedReason :: string
  podStatuses :: "string \<rightharpoonup> 'ps"
  dep_TrackedPods :: "string list"

text \<open>
  \<open>NewTracker\<close>: every field not set by the constructor has Go's zero value
  (\<open>FinalDeploymentStatus\<close>, a struct, is \<open>None\<close> until it is assigned).
\<close>

definition NewTracker :: "('st, 'ps) Tracker" where
  "NewTracker =
     \<lparr>CurrentReady = False, dep_State = [], FinalDeploymentStatus = None,
      knownReplicaSets = Map.empty, dep_lastObject = None,
      readyStatus = \<lparr>IsReady = False\<rparr>, failedReason = [],
      podStatuses = Map.empty, dep_TrackedPods = []\<rparr>"

text \<open>
  The collaborators of the tracker that live in other packages: the debug switch, the
  readiness calculator, the event listing of the debug trace, and the two helpers of
  \<open>utils\<close> on replica sets.
\<close>

record 'st DeploymentEnv =
  dep_Debug :: bool
  DeploymentReadyStatus :: "'st Deployment \<Rightarrow> 'st \<Rightarrow> ReadyStatus"
  dep_ListEventsForObject :: "'st Deployment \<Rightarrow> error option"
  IsReplicaSetNew ::
    "'st Deployment option \<Rightarrow> (string \<rightharpoonup> ApiReplicaSet) \<Rightarrow> string \<Rightarrow> error + bool"
  GetPodReplicaSetName :: "Pod \<Rightarrow> string"

text \<open>
  What the tracker sends on its feed channels, and the informers and pod trackers it
  starts. \<open>send_dep_StatusReport_zero\<close> is the send of the empty struct
  \<open>DeploymentStatus{}\<close>.
\<close>

datatype ('st, 'ps) DeploymentOut =
    send_dep_Added bool
  | send_dep_Ready bool
  | send_dep_Failed string
  | send_AddedReplicaSet ReplicaSet
  | send_dep_AddedPod ReplicaSetPod
  | send_PodLogChunk ReplicaSetPodLogChunk
  | send_PodError ReplicaSetPodError
  | send_dep_StatusReport "('st, 'ps) DeploymentStatus"
  | send_dep_StatusReport_zero
  | run_DeploymentInformer
  | run_ReplicaSetsInformer
  | run_dep_PodsInformer
  | run_dep_EventsInformer "'st Deployment"
  | run_dep_PodTracker string string

datatype 'a result = Result 'a | Error error | NilDereference

subsection \<open>The tracker\<close>

definition handleDeploymentState ::
  "'st DeploymentEnv \<Rightarrow> ('st, 'ps) Tracker \<Rightarrow> 'st Deployment
     \<Rightarrow> ('st, 'ps) DeploymentOut list \<times> (bool \<times> ('st, 'ps) Tracker) result" where
  "handleDeploymentState env d object =
     (case (if dep_Debug env then dep_ListEventsForObject env object else None) of
        Some err \<Rightarrow> ([], Error err)
      | None \<Rightarrow>
          (let prevReady = (case dep_lastObject d of None \<Rightarrow> False | Some _ \<Rightarrow> CurrentReady d);
               newStatus = dep_Status object;
               rs = (case dep_lastObject d of
                       Some lastObject \<Rightarrow> DeploymentReadyStatus env lastObject newStatus
                     | None \<Rightarrow> DeploymentReadyStatus env object newStatus);
               d1 = d\<lparr>readyStatus := rs, CurrentReady := IsReady rs,
                       dep_lastObject := Some object\<rparr>
           in case NewDeploymentStatus (readyStatus d1) (dep_State d1 = ''Failed'')
                     (failedReason d1) (dep_Spec object) (dep_Status object) (podStatuses d1) of
                None \<Rightarrow> ([], NilDereference)
              | Some report \<Rightarrow>
                  (if prevReady = False \<and> CurrentReady d1 = True
                   then ([send_dep_StatusReport report],
                         Result (True, d1\<lparr>FinalDeploymentStatus := Some newStatus\<rparr>))
                   else ([send_dep_StatusReport report], Result (False, d1)))))"

definition runReplicaSetsInformer ::
  "('st, 'ps) Tracker \<Rightarrow> ('st, 'ps) DeploymentOut list" where
  "runReplicaSetsInformer d =
     (case dep_lastObject d of None \<Rightarrow> [] | Some _ \<Rightarrow> [run_ReplicaSetsInformer])"

definition runPodsInformer :: "('st, 'ps) Tracker \<Rightarrow> ('st, 'ps) DeploymentOut list" where
  "runPodsInformer d =
     (case dep_lastObject d of None \<Rightarrow> [] | Some _ \<Rightarrow> [run_dep_PodsInformer])"

definition runEventsInformer :: "'st Deployment \<Rightarrow> ('st, 'ps) DeploymentOut list" where
  "runEventsInformer resource = [run_dep_EventsInformer resource]"

text \<open>
  \<open>runPodTracker\<close>: the name joins \<open>TrackedPods\<close> and the two goroutines of the
  pod tracker are started; the error it returns is always nil.
\<close>

definition runPodTracker ::
  "('st, 'ps) Tracker \<Rightarrow> string \<Rightarrow> string
     \<Rightarrow> ('st, 'ps) DeploymentOut list \<times> ('st, 'ps) Tracker \<times> error option" where
  "runPodTracker d podName rsName =
     ([run_dep_PodTracker podName rsName],
      d\<lparr>dep_TrackedPods := dep_TrackedPods d @ [podName]\<rparr>, None)"

text \<open>One message received by the \<open>select\<close> of \<open>Track\<close>, one per case.\<close>

datatype ('st, 'ps) DeploymentEvent =
    resourceAdded "'st Deployment"
  | resourceModified "'st Deployment"
  | resourceDeleted "'st Deployment"
  | resourceFailed string
  | replicaSetAdded ApiReplicaSet
  | replicaSetModified ApiReplicaSet
  | replicaSetDeleted ApiReplicaSet
  | podAdded Pod
  | podDone string
  | podStatusesReport "string \<rightharpoonup> 'ps"
  | replicaSetPodLogChunk ReplicaSetPodLogChunk
  | replicaSetPodError ReplicaSetPodError
  | dep_Context_Done
  | dep_errors error

fun Track_select ::
  "'st DeploymentEnv \<Rightarrow> ('st, 'ps) Tracker \<Rightarrow> ('st, 'ps) DeploymentEvent
     \<Rightarrow> ('st, 'ps) DeploymentOut list \<times> ('st, 'ps) Tracker outcome" where
  "Track_select env d (resourceAdded object) =
     (case handleDeploymentState env d object of
        (out, Error err) \<Rightarrow> (out, Return (Some err))
      | (out, NilDereference) \<Rightarrow> (out, Panic)
      | (out, Result (ready, d1)) \<Rightarrow>
          (let (out2, d2) =
                 (if dep_State d1 = []
                  then ([send_dep_Added ready], d1\<lparr>dep_State := ''Started''\<rparr>)
                  else ([], d1))
           in (out @ out2 @ runReplicaSetsInformer d2 @ runPodsInformer d2
                 @ runEventsInformer object,
               Continue d2)))"
| "Track_select env d (resourceModified object) =
     (case handleDeploymentState env d object of
        (out, Error err) \<Rightarrow> (out, Return (Some err))
      | (out, NilDereference) \<Rightarrow> (out, Panic)
      | (out, Result (ready, d1)) \<Rightarrow>
          (if ready then (out @ [send_dep_Ready True], Continue d1)
           else (out, Continue d1)))"
| "Track_select env d (resourceDeleted object) =
     ([send_dep_StatusReport_zero, send_dep_Failed ''resource deleted''],
      Continue (d\<lparr>dep_lastObject := None, dep_State := ''Deleted''\<rparr>))"
| "Track_select env d (resourceFailed reason) =
     (let d1 = d\<lparr>dep_State := ''Failed'', failedReason := reason\<rparr> in
      case dep_lastObject d1 of
        None \<Rightarrow> ([send_dep_Failed reason], Continue d1)
      | Some lastObject \<Rightarrow>
          (case NewDeploymentStatus (readyStatus d1) (dep_State d1 = ''Failed'')
                  (failedReason d1) (dep_Spec lastObject) (dep_Status lastObject) (podStatuses d1) of
             None \<Rightarrow> ([], Panic)
           | Some report \<Rightarrow>
               ([send_dep_StatusReport report, send_dep_Failed reason], Continue d1)))"
| "Track_select env d (replicaSetAdded rs) =
     (let d1 = d\<lparr>knownReplicaSets := (knownReplicaSets d)(ars_Name rs \<mapsto> rs)\<rparr> in
      case IsReplicaSetNew env (dep_lastObject d1) (knownReplicaSets d1) (ars_Name rs) of
        Inl err \<Rightarrow> ([], Return (Some err))
      | Inr rsNew \<Rightarrow>
          ([send_AddedReplicaSet \<lparr>rs_Name = ars_Name rs, IsNew = rsNew\<rparr>], Continue d1))"
| "Track_select env d (replicaSetModified rs) =
     ([], Continue (d\<lparr>knownReplicaSets := (knownReplicaSets d)(ars_Name rs \<mapsto> rs)\<rparr>))"
| "Track_select env d (replicaSetDeleted rs) =
     ([], Continue (d\<lparr>knownReplicaSets := (knownReplicaSets d)(ars_Name rs := None)\<rparr>))"
| "Track_select env d (podAdded pod) =
     (let rsName = GetPodReplicaSetName env pod in
      case IsReplicaSetNew env (dep_lastObject d) (knownReplicaSets d) rsName of
        Inl err \<Rightarrow> ([], Return (Some err))
      | Inr rsNew \<Rightarrow>
          (let rsPod = \<lparr>rsp_Name = pod_Name pod,
                        rsp_ReplicaSet = \<lparr>rs_Name = rsName, IsNew = rsNew\<rparr>\<rparr>
           in case runPodTracker d (pod_Name pod) rsName of
                (out, d1, Some err) \<Rightarrow> (send_dep_AddedPod rsPod # out, Return (Some err))
              | (out, d1, None) \<Rightarrow> (send_dep_AddedPod rsPod # out, Continue d1)))"
| "Track_select env d (podDone podName) =
     ([], Continue (d\<lparr>dep_TrackedPods :=
                        filter (\<lambda>name. name \<noteq> podName) (dep_TrackedPods d)\<rparr>))"
| "Track_select env d (podStatusesReport statuses) =
     (let d1 = d\<lparr>podStatuses := podStatuses d ++ statuses\<rparr> in
      case dep_lastObject d1 of
        None \<Rightarrow> ([], Continue d1)
      | Some lastObject \<Rightarrow>
          (case NewDeploymentStatus (readyStatus d1) (dep_State d1 = ''Failed'')
                  (failedReason d1) (dep_Spec lastObject) (dep_Status lastObject) (podStatuses d1) of
             None \<Rightarrow> ([], Panic)
           | Some report \<Rightarrow> ([send_dep_StatusReport report], Continue d1)))"
| "Track_select env d (replicaSetPodLogChunk rsChunk) =
     (case IsReplicaSetNew env (dep_lastObject d) (knownReplicaSets d)
             (rs_Name (lc_ReplicaSet rsChunk)) of
        Inl err \<Rightarrow> ([], Return (Some err))
      | Inr rsNew \<Rightarrow>
          ([send_PodLogChunk
              (rsChunk\<lparr>lc_ReplicaSet := (lc_ReplicaSet rsChunk)\<lparr>IsNew := rsNew\<rparr>\<rparr>)],
           Continue d))"
| "Track_select env d (replicaSetPodError rsPodError) =
     (case IsReplicaSetNew env (dep_lastObject d) (knownReplicaSets d)
             (rs_Name (pe_ReplicaSet rsPodError)) of
        Inl err \<Rightarrow> ([], Return (Some err))
      | Inr rsNew \<Rightarrow>
          ([send_PodError
              (rsPodError\<lparr>pe_ReplicaSet := (pe_ReplicaSet rsPodError)\<lparr>IsNew := rsNew\<rparr>\<rparr>)],
           Continue d))"
| "Track_select env d dep_Context_Done = ([], Return (Some ErrTrackInterrupted))"
| "Track_select env d (dep_errors err) = ([], Return (Some err))"

text \<open>
  The loop of \<open>Track\<close> over the messages in the order its \<open>select\<close> receives
  them; when they run out the loop is waiting, with the tracker as it stands.
\<close>

fun Track_loop ::
  "'st DeploymentEnv \<Rightarrow> ('st, 'ps) Tracker \<Rightarrow> ('st, 'ps) DeploymentEvent list
     \<Rightarrow> ('st, 'ps) DeploymentOut list \<times> ('st, 'ps) Tracker outcome" where
  "Track_loop env d [] = ([], Continue d)"
| "Track_loop env d (ev # evs) =
     (case Track_select env d ev of
        (out, Continue d') \<Rightarrow>
          (let (out', r) = Track_loop env d' evs in (out @ out', r))
      | (out, r) \<Rightarrow> (out, r))"

text \<open>\<open>Track\<close> on a fresh tracker: the deployment informer is started, then the loop runs.\<close>

definition Track ::
  "'st DeploymentEnv \<Rightarrow> ('st, 'ps) DeploymentEvent list
     \<Rightarrow> ('st, 'ps) DeploymentOut list \<times> ('st, 'ps) Tracker outcome" where
  "Track env evs =
     (let (out, r) = Track_loop env NewTracker evs in (run_DeploymentInformer # out, r))"

section \<open>pkg/tracker/daemonset/tracker.go\<close>

subsection \<open>Data\<close>

text \<open>
  The fields of \<open>appsv1.DaemonSet\<close> that the tracker reads; its status is kept
  abstract (\<open>'st\<close>), as is the \<open>PodStatus\<close> of the pod package (\<open>'ps\<close>).
\<close>

record 'st DaemonSet =
  ds_Name :: string
  ds_Status :: 'st

record ('st, 'ps) DaemonSetStatus =
  embedded_DaemonSetStatus :: 'st
  ds_Pods :: "string \<rightharpoonup> 'ps"

definition NewDaemonSetStatus :: "'st \<Rightarrow> (string \<rightharpoonup> 'ps) \<Rightarrow> ('st, 'ps) DaemonSetStatus" where
  "NewDaemonSetStatus kubeStatus podsStatuses =
     \<lparr>embedded_DaemonSetStatus = kubeStatus, ds_Pods = Map.empty ++ podsStatuses\<rparr>"

record ('st, 'ps) DaemonSetTracker =
  ds_State :: string
  ds_lastObject :: "'st DaemonSet option"
  ds_podStatuses :: "string \<rightharpoonup> 'ps"
  ds_TrackedPods :: "string list"

definition NewDaemonSetTracker :: "('st, 'ps) DaemonSetTracker" where
  "NewDaemonSetTracker =
     \<lparr>ds_State = [], ds_lastObject = None, ds_podStatuses = Map.empty, ds_TrackedPods = []\<rparr>"

text \<open>
  The collaborators that live outside the file: the debug switch, the rollout status of
  the package (message, readiness and error) and the event listing of the debug trace.
\<close>

record 'st DaemonSetEnv =
  ds_Debug :: bool
  DaemonSetRolloutStatus :: "'st DaemonSet \<Rightarrow> string \<times> bool \<times> error option"
  ds_ListEventsForObject :: "'st DaemonSet \<Rightarrow> error option"

datatype ('st, 'ps) DaemonSetOut =
    send_ds_Added bool
  | send_ds_Ready bool
  | send_ds_Failed string
  | send_ds_AddedPod ReplicaSetPod
  | send_ds_StatusReport "('st, 'ps) DaemonSetStatus"
  | send_ds_StatusReport_zero
  | run_DaemonSetInformer
  | run_ds_PodsInformer
  | run_ds_EventsInformer
  | run_ds_PodTracker string

subsection \<open>The tracker\<close>

text \<open>\<open>handleDaemonSetStatus\<close> reads and writes no field of the tracker: \<open>(ready, err)\<close>.\<close>

definition handleDaemonSetStatus ::
  "'st DaemonSetEnv \<Rightarrow> 'st DaemonSet \<Rightarrow> bool \<times> error option" where
  "handleDaemonSetStatus env object =
     (case DaemonSetRolloutStatus env object of
        (msg, ready, err) \<Rightarrow>
          (case (if ds_Debug env then ds_ListEventsForObject env object else None) of
             Some err' \<Rightarrow> (False, Some err')
           | None \<Rightarrow> (ready, err)))"

definition ds_runPodsInformer ::
  "('st, 'ps) DaemonSetTracker \<Rightarrow> ('st, 'ps) DaemonSetOut list" where
  "ds_runPodsInformer d =
     (case ds_lastObject d of None \<Rightarrow> [] | Some _ \<Rightarrow> [run_ds_PodsInformer])"

definition ds_runEventsInformer ::
  "('st, 'ps) DaemonSetTracker \<Rightarrow> ('st, 'ps) DaemonSetOut list" where
  "ds_runEventsInformer d =
     (case ds_lastObject d of None \<Rightarrow> [] | Some _ \<Rightarrow> [run_ds_EventsInformer])"

definition ds_runPodTracker ::
  "('st, 'ps) DaemonSetTracker \<Rightarrow> string
     \<Rightarrow> ('st, 'ps) DaemonSetOut list \<times> ('st, 'ps) DaemonSetTracker \<times> error option" where
  "ds_runPodTracker d podName =
     ([run_ds_PodTracker podName],
      d\<lparr>ds_TrackedPods := ds_TrackedPods d @ [podName]\<rparr>, None)"

datatype ('st, 'ps) DaemonSetEvent =
    ds_resourceAdded "'st DaemonSet"
  | ds_resourceModified "'st DaemonSet"
  | ds_resourceDeleted "'st DaemonSet"
  | ds_resourceFailed string
  | ds_podAdded Pod
  | ds_podDone string
  | ds_podStatusesReport "string \<rightharpoonup> 'ps"
  | ds_Context_Done
  | ds_errors error

fun DaemonSet_Track_select ::
  "'st DaemonSetEnv \<Rightarrow> ('st, 'ps) DaemonSetTracker \<Rightarrow> ('st, 'ps) DaemonSetEvent
     \<Rightarrow> ('st, 'ps) DaemonSetOut list \<times> ('st, 'ps) DaemonSetTracker outcome" where
  "DaemonSet_Track_select env d (ds_resourceAdded object) =
     (let d1 = d\<lparr>ds_lastObject := Some object\<rparr>;
          out1 = [send_ds_StatusReport (NewDaemonSetStatus (ds_Status object) (ds_podStatuses d1))]
      in case handleDaemonSetStatus env object of
           (ready, Some err) \<Rightarrow> (out1, Return (Some err))
         | (ready, None) \<Rightarrow>
             (let (out2, d2) =
                    (if ds_State d1 = []
                     then ([send_ds_Added ready], d1\<lparr>ds_State := ''Started''\<rparr>)
                     else ([], d1))
              in (out1 @ out2 @ ds_runPodsInformer d2 @ ds_runEventsInformer d2, Continue d2)))"
| "DaemonSet_Track_select env d (ds_resourceModified object) =
     (case handleDaemonSetStatus env object of
        (ready, Some err) \<Rightarrow> ([], Return (Some err))
      | (ready, None) \<Rightarrow>
          (let d1 = d\<lparr>ds_lastObject := Some object\<rparr>;
               out1 = [send_ds_StatusReport
                         (NewDaemonSetStatus (ds_Status object) (ds_podStatuses d1))]
           in if ready then (out1 @ [send_ds_Ready True], Continue d1)
              else (out1, Continue d1)))"
| "DaemonSet_Track_select env d (ds_resourceDeleted object) =
     ([send_ds_StatusReport_zero, send_ds_Failed ''resource deleted''],
      Continue (d\<lparr>ds_lastObject := None, ds_State := ''Deleted''\<rparr>))"
| "DaemonSet_Track_select env d (ds_resourceFailed reason) =
     ([send_ds_Failed reason], Continue (d\<lparr>ds_State := ''Failed''\<rparr>))"
| "DaemonSet_Track_select env d (ds_podAdded pod) =
     (let rsPod = \<lparr>rsp_Name = pod_Name pod,
                   rsp_ReplicaSet = \<lparr>rs_Name = [], IsNew = False\<rparr>\<rparr>
      in case ds_runPodTracker d (pod_Name pod) of
           (out, d1, Some err) \<Rightarrow> (send_ds_AddedPod rsPod # out, Return (Some err))
         | (out, d1, None) \<Rightarrow> (send_ds_AddedPod rsPod # out, Continue d1))"
| "DaemonSet_Track_select env d (ds_podDone podName) =
     ([], Continue (d\<lparr>ds_TrackedPods :=
                        filter (\<lambda>name. name \<noteq> podName) (ds_TrackedPods d)\<rparr>))"
| "DaemonSet_Track_select env d (ds_podStatusesReport statuses) =
     (let d1 = d\<lparr>ds_podStatuses := ds_podStatuses d ++ statuses\<rparr> in
      case ds_lastObject d1 of
        None \<Rightarrow> ([], Continue d1)
      | Some lastObject \<Rightarrow>
          ([send_ds_StatusReport
              (NewDaemonSetStatus (ds_Status lastObject) (ds_podStatuses d1))],
           Continue d1))"
| "DaemonSet_Track_select env d ds_Context_Done = ([], Return (Some ErrTrackInterrupted))"
| "DaemonSet_Track_select env d (ds_errors err) = ([], Return (Some err))"

fun DaemonSet_Track_loop ::
  "'st DaemonSetEnv \<Rightarrow> ('st, 'ps) DaemonSetTracker \<Rightarrow> ('st, 'ps) DaemonSetEvent list
     \<Rightarrow> ('st, 'ps) DaemonSetOut list \<times> ('st, 'ps) DaemonSetTracker outcome" where
  "DaemonSet_Track_loop env d [] = ([], Continue d)"
| "DaemonSet_Track_loop env d (ev # evs) =
     (case DaemonSet_Track_select env d ev of
        (out, Continue d') \<Rightarrow>
          (let (out', r) = DaemonSet_Track_loop env d' evs in (out @ out', r))
      | (out, r) \<Rightarrow> (out, r))"

definition DaemonSet_Track ::
  "'st DaemonSetEnv \<Rightarrow> ('st, 'ps) DaemonSetEvent list
     \<Rightarrow> ('st, 'ps) DaemonSetOut list \<times> ('st, 'ps) DaemonSetTracker outcome" where
  "DaemonSet_Track env evs =
     (let (out, r) = DaemonSet_Track_loop env NewDaemonSetTracker evs
      in (run_DaemonSetInformer # out, r))"

section \<open>Notions used to state the properties\<close>

subsection \<open>Pod tracker\<close>

text \<open>
  The error a container status calls for, in the words of the specification: a waiting
  container whose reason is one of the three back-off reasons gives one error
  \<open>"<reason>: <detail>"\<close> under the container's name; anything else gives none.
\<close>

definition waitingError :: "ContainerStatus \<Rightarrow> PodOut list" where
  "waitingError cs =
     (case Waiting (cs_State cs) of
        None \<Rightarrow> []
      | Some w \<Rightarrow>
          (if Reason w \<in> {''ImagePullBackOff'', ''ErrImagePull'', ''CrashLoopBackOff''}
           then [send_ContainerError
                   \<lparr>err_Message = Reason w @ '': '' @ Message w,
                    err_ContainerName = cs_Name cs\<rparr>]
           else []))"

text \<open>The sends on \<open>Succeeded\<close> and \<open>Failed\<close> among what the tracker sent.\<close>

definition terminalSignals :: "PodOut list \<Rightarrow> PodOut list" where
  "terminalSignals out = filter (\<lambda>x. x = send_Succeeded \<or> x = send_Failed) out"

fun goesOn :: "'s outcome \<Rightarrow> bool" where
  "goesOn (Continue s) = True"
| "goesOn (Return r) = False"
| "goesOn Panic = False"

text \<open>
  The completion rule in the words of the specification, for a list of tracked
  containers, a pod snapshot and what one pass of the loop did.
\<close>

definition completionRule ::
  "string list \<Rightarrow> Pod \<Rightarrow> PodOut list \<times> PodTracker outcome \<Rightarrow> bool" where
  "completionRule tracked object res =
     (case res of (out, r) \<Rightarrow>
        (if tracked = [] \<and> Phase (pod_Status object) = PodSucceeded
         then terminalSignals out = [send_Succeeded] \<and> r = Return None
         else if tracked = [] \<and> Phase (pod_Status object) = PodFailed
         then terminalSignals out = [send_Failed] \<and> r = Return None
         else terminalSignals out = [] \<and> goesOn r))"

text \<open>A feed whose every callback asks to stop.\<close>

definition stopFeed :: PodFeed where
  "stopFeed =
     \<lparr>feed_Added = Some StopTrack, feed_Succeeded = Some StopTrack,
      feed_Failed = Some StopTrack,
      feed_ContainerLogChunk = (\<lambda>chunk. Some StopTrack),
      feed_ContainerError = (\<lambda>containerError. Some StopTrack)\<rparr>"

subsection \<open>Log framing\<close>

text \<open>
  The framing of the specification as a function of the whole byte stream: the lines
  are the pieces that end in a line feed, a line with a space is split at its first
  space, a line without one is dropped.
\<close>

function completeLines :: "string \<Rightarrow> string list" where
  "completeLines bs =
     (if CHR 0x0A \<in> set bs
      then takeWhile (\<lambda>b. b \<noteq> CHR 0x0A) bs
             # completeLines (tl (dropWhile (\<lambda>b. b \<noteq> CHR 0x0A) bs))
      else [])"
  by pat_completeness auto
termination
proof (relation "measure length")
  show "wf (measure length)" by simp
next
  fix bs :: string
  assume a: "CHR 0x0A \<in> set bs"
  then have "dropWhile (\<lambda>b. b \<noteq> CHR 0x0A) bs \<noteq> []" by auto
  then have "length (tl (dropWhile (\<lambda>b. b \<noteq> CHR 0x0A) bs))
               < length (dropWhile (\<lambda>b. b \<noteq> CHR 0x0A) bs)"
    by (cases "dropWhile (\<lambda>b. b \<noteq> CHR 0x0A) bs") auto
  also have "\<dots> \<le> length bs" by (rule length_dropWhile_le)
  finally show "(tl (dropWhile (\<lambda>b. b \<noteq> CHR 0x0A) bs), bs) \<in> measure length" by simp
qed

declare completeLines.simps [simp del]

definition toLogLine :: "string \<Rightarrow> LogLine option" where
  "toLogLine line =
     (if CHR '' '' \<in> set line
      then Some \<lparr>Timestamp = takeWhile (\<lambda>b. b \<noteq> CHR '' '') line,
                 Data = tl (dropWhile (\<lambda>b. b \<noteq> CHR '' '') line)\<rparr>
      else None)"

definition parseLogLines :: "string \<Rightarrow> LogLine list" where
  "parseLogLines bs = List.map_filter toLogLine (completeLines bs)"

text \<open>What follows the last line feed: the line that is not complete yet.\<close>

definition partialLine :: "string \<Rightarrow> string" where
  "partialLine bs = rev (takeWhile (\<lambda>b. b \<noteq> CHR 0x0A) (rev bs))"

text \<open>
  The reads the follower makes: it stops after the first read that ends the stream,
  fails, or finds the context done.
\<close>

fun readsDone :: "ReadResult list \<Rightarrow> ReadResult list" where
  "readsDone [] = []"
| "readsDone (rd # rds) =
     (if rd_err rd = NoError \<and> \<not> rd_ctxDone rd then rd # readsDone rds else [rd])"

text \<open>
  One chunk for each read that brought bytes, with the lines that read completed; the
  first argument is the incomplete line carried into the read.
\<close>

fun chunksOf :: "string \<Rightarrow> string \<Rightarrow> ReadResult list \<Rightarrow> ContainerLogChunk list" where
  "chunksOf containerName carried [] = []"
| "chunksOf containerName carried (rd # rds) =
     (if rd_bytes rd = [] then chunksOf containerName carried rds
      else \<lparr>ContainerName = containerName, LogLines = parseLogLines (carried @ rd_bytes rd)\<rparr>
             # chunksOf containerName (partialLine (carried @ rd_bytes rd)) rds)"

subsection \<open>Deployment tracker\<close>

fun dep_isAdded :: "('st, 'ps) DeploymentOut \<Rightarrow> bool" where
  "dep_isAdded (send_dep_Added ready) = True"
| "dep_isAdded _ = False"

fun dep_isReady :: "('st, 'ps) DeploymentOut \<Rightarrow> bool" where
  "dep_isReady (send_dep_Ready ready) = True"
| "dep_isReady _ = False"

fun dep_isFailed :: "('st, 'ps) DeploymentOut \<Rightarrow> bool" where
  "dep_isFailed (send_dep_Failed reason) = True"
| "dep_isFailed _ = False"

fun dep_startsInformer :: "('st, 'ps) DeploymentOut \<Rightarrow> bool" where
  "dep_startsInformer run_ReplicaSetsInformer = True"
| "dep_startsInformer run_dep_PodsInformer = True"
| "dep_startsInformer (run_dep_EventsInformer resource) = True"
| "dep_startsInformer _ = False"

text \<open>No \<open>Ready\<close> and no \<open>Failed\<close> comes before the first \<open>Added\<close> of a feed.\<close>

fun dep_AddedPrecedes :: "('st, 'ps) DeploymentOut list \<Rightarrow> bool" where
  "dep_AddedPrecedes [] = True"
| "dep_AddedPrecedes (x # xs) =
     (if dep_isAdded x then True
      else if dep_isReady x \<or> dep_isFailed x then False
      else dep_AddedPrecedes xs)"

text \<open>
  The first message about the controller that the loop receives is its \<open>Added\<close>:
  none of Modified, Deleted or a classified failure is received before it.
\<close>

fun dep_AddedFirst :: "('st, 'ps) DeploymentEvent list \<Rightarrow> bool" where
  "dep_AddedFirst [] = True"
| "dep_AddedFirst (resourceAdded object # evs) = True"
| "dep_AddedFirst (resourceModified object # evs) = False"
| "dep_AddedFirst (resourceDeleted object # evs) = False"
| "dep_AddedFirst (resourceFailed reason # evs) = False"
| "dep_AddedFirst (ev # evs) = dep_AddedFirst evs"

text \<open>
  The readiness the tracker remembers from the observation before, and the readiness it
  computes for a new snapshot.
\<close>

definition prevReady :: "('st, 'ps) Tracker \<Rightarrow> bool" where
  "prevReady d = (case dep_lastObject d of None \<Rightarrow> False | Some _ \<Rightarrow> CurrentReady d)"

definition newReady :: "'st DeploymentEnv \<Rightarrow> ('st, 'ps) Tracker \<Rightarrow> 'st Deployment \<Rightarrow> bool" where
  "newReady env d object =
     IsReady (DeploymentReadyStatus env
                (case dep_lastObject d of None \<Rightarrow> object | Some lastObject \<Rightarrow> lastObject)
                (dep_Status object))"

text \<open>
  The handler of a deployment snapshot runs through: the event listing of the debug
  trace does not fail and \<open>Replicas\<close> is set.
\<close>

definition handles :: "'st DeploymentEnv \<Rightarrow> 'st Deployment \<Rightarrow> bool" where
  "handles env object =
     ((if dep_Debug env then dep_ListEventsForObject env object else None) = None
      \<and> Replicas (dep_Spec object) \<noteq> None)"

text \<open>
  No pod is added under a name that is in the list of tracked pods at that moment; the
  first argument is the list when the messages start.
\<close>

fun podsFresh :: "string list \<Rightarrow> ('st, 'ps) DeploymentEvent list \<Rightarrow> bool" where
  "podsFresh tracked [] = True"
| "podsFresh tracked (podAdded pod # evs) =
     (pod_Name pod \<notin> set tracked \<and> podsFresh (tracked @ [pod_Name pod]) evs)"
| "podsFresh tracked (podDone podName # evs) =
     podsFresh (filter (\<lambda>name. name \<noteq> podName) tracked) evs"
| "podsFresh tracked (ev # evs) = podsFresh tracked evs"

text \<open>A small cluster to run the tracker on: the status of a deployment is its readiness.\<close>

definition exampleEnv :: "bool DeploymentEnv" where
  "exampleEnv =
     \<lparr>dep_Debug = False,
      DeploymentReadyStatus = (\<lambda>object status. \<lparr>IsReady = status\<rparr>),
      dep_ListEventsForObject = (\<lambda>object. None),
      IsReplicaSetNew = (\<lambda>lastObject known name. Inr True),
      GetPodReplicaSetName = (\<lambda>pod. ''rs-new'')\<rparr>"

definition exampleDeployment :: "bool \<Rightarrow> bool Deployment" where
  "exampleDeployment ready =
     \<lparr>dep_Name = ''web'', dep_Spec = \<lparr>Replicas = Some 2\<rparr>, dep_Status = ready\<rparr>"

definition examplePod :: "string \<Rightarrow> Pod" where
  "examplePod name =
     \<lparr>pod_Name = name,
      pod_Spec = \<lparr>InitContainers = [], Containers = [''main'']\<rparr>,
      pod_Status = \<lparr>Phase = ''Running'', InitContainerStatuses = [], ContainerStatuses = []\<rparr>\<rparr>"

definition exampleReport :: "bool \<Rightarrow> (bool, unit) DeploymentStatus" where
  "exampleReport ready =
     \<lparr>Pods = Map.empty, embedded_DeploymentStatus = ready, DesiredReplicas = 2,
      IsFailed = False, FailedReason = [], ReadyStatus = \<lparr>IsReady = ready\<rparr>\<rparr>"

subsection \<open>DaemonSet tracker\<close>

fun ds_isAdded :: "('st, 'ps) DaemonSetOut \<Rightarrow> bool" where
  "ds_isAdded (send_ds_Added ready) = True"
| "ds_isAdded _ = False"

fun ds_isReady :: "('st, 'ps) DaemonSetOut \<Rightarrow> bool" where
  "ds_isReady (send_ds_Ready ready) = True"
| "ds_isReady _ = False"

fun ds_isFailed :: "('st, 'ps) DaemonSetOut \<Rightarrow> bool" where
  "ds_isFailed (send_ds_Failed reason) = True"
| "ds_isFailed _ = False"

fun ds_AddedPrecedes :: "('st, 'ps) DaemonSetOut list \<Rightarrow> bool" where
  "ds_AddedPrecedes [] = True"
| "ds_AddedPrecedes (x # xs) =
     (if ds_isAdded x then True
      else if ds_isReady x \<or> ds_isFailed x then False
      else ds_AddedPrecedes xs)"

fun ds_AddedFirst :: "('st, 'ps) DaemonSetEvent list \<Rightarrow> bool" where
  "ds_AddedFirst [] = True"
| "ds_AddedFirst (ds_resourceAdded object # evs) = True"
| "ds_AddedFirst (ds_resourceModified object # evs) = False"
| "ds_AddedFirst (ds_resourceDeleted object # evs) = False"
| "ds_AddedFirst (ds_resourceFailed reason # evs) = False"
| "ds_AddedFirst (ev # evs) = ds_AddedFirst evs"

definition exampleDaemonSetEnv :: "bool DaemonSetEnv" where
  "exampleDaemonSetEnv =
     \<lparr>ds_Debug = False,
      DaemonSetRolloutStatus = (\<lambda>object. ([], ds_Status object, None)),
      ds_ListEventsForObject = (\<lambda>object. None)\<rparr>"

definition exampleDaemonSet :: "bool \<Rightarrow> bool DaemonSet" where
  "exampleDaemonSet ready = \<lparr>ds_Name = ''agent'', ds_Status = ready\<rparr>"

definition exampleDaemonSetReport :: "bool \<Rightarrow> (bool, unit) DaemonSetStatus" where
  "exampleDaemonSetReport ready = \<lparr>embedded_DaemonSetStatus = ready, ds_Pods = Map.empty\<rparr>"

section \<open>Properties of the log follower\<close>

subsection \<open>Splitting at a byte\<close>

lemma Index_None: "Index s sep = None \<longleftrightarrow> sep \<notin> set s"
  by (induction s) auto

lemma Index_Some:
  "Index s sep = Some i \<Longrightarrow>
     take i s = takeWhile (\<lambda>b. b \<noteq> sep) s \<and> drop (Suc i) s = tl (dropWhile (\<lambda>b. b \<noteq> sep) s)"
  by (induction s arbitrary: i) (auto split: if_splits)

lemma SplitN_two:
  "SplitN s sep 2 =
     (if sep \<in> set s
      then [takeWhile (\<lambda>b. b \<noteq> sep) s, tl (dropWhile (\<lambda>b. b \<noteq> sep) s)]
      else [s])"
proof (cases "Index s sep")
  case None
  then have "sep \<notin> set s" using Index_None [of s sep] by simp
  with None show ?thesis by (simp add: numeral_2_eq_2)
next
  case (Some i)
  then have "sep \<in> set s" using Index_None [of s sep] by auto
  with Some Index_Some [OF Some] show ?thesis by (simp add: numeral_2_eq_2)
qed

lemma takeWhile_upto: "c \<notin> set line \<Longrightarrow> takeWhile (\<lambda>b. b \<noteq> c) (line @ c # rest) = line"
  by (induction line) auto

lemma dropWhile_upto: "c \<notin> set line \<Longrightarrow> dropWhile (\<lambda>b. b \<noteq> c) (line @ c # rest) = c # rest"
  by (induction line) auto

lemma takeWhile_whole: "c \<notin> set bs \<Longrightarrow> takeWhile (\<lambda>b. b \<noteq> c) bs = bs"
  by (induction bs) auto

lemma takeWhile_stop: "takeWhile (\<lambda>b. b \<noteq> c) (xs @ c # ys) = takeWhile (\<lambda>b. b \<noteq> c) xs"
  by (induction xs) auto

lemma completeLines_no_feed: "CHR 0x0A \<notin> set bs \<Longrightarrow> completeLines bs = []"
  by (subst completeLines.simps) simp

lemma completeLines_feed:
  "CHR 0x0A \<notin> set line \<Longrightarrow>
     completeLines (line @ CHR 0x0A # rest) = line # completeLines rest"
  by (subst completeLines.simps) (simp add: takeWhile_upto dropWhile_upto)

lemma parseLogLines_feed:
  "CHR 0x0A \<notin> set line \<Longrightarrow>
     parseLogLines (line @ CHR 0x0A # rest) =
       (case toLogLine line of None \<Rightarrow> [] | Some l \<Rightarrow> [l]) @ parseLogLines rest"
  by (simp add: parseLogLines_def completeLines_feed split: option.splits)

lemma partialLine_feed: "partialLine (line @ CHR 0x0A # rest) = partialLine rest"
  by (simp add: partialLine_def takeWhile_stop)

lemma partialLine_no_feed: "CHR 0x0A \<notin> set bs \<Longrightarrow> partialLine bs = bs"
proof -
  assume a: "CHR 0x0A \<notin> set bs"
  have "takeWhile (\<lambda>b. b \<noteq> CHR 0x0A) (rev bs) = rev bs"
    by (rule takeWhile_whole) (use a in simp)
  then show ?thesis unfolding partialLine_def by (simp only: rev_rev_ident)
qed

lemma partialLine_clean: "CHR 0x0A \<notin> set (partialLine bs)"
  unfolding partialLine_def using set_takeWhileD by fastforce

lemma scanChunk_parse:
  "CHR 0x0A \<notin> set lineBuf \<Longrightarrow>
     scanChunk bs lineBuf chunkLines =
       (partialLine (lineBuf @ bs), chunkLines @ parseLogLines (lineBuf @ bs))"
proof (induction bs arbitrary: lineBuf chunkLines)
  case Nil
  then show ?case
    by (simp add: partialLine_no_feed parseLogLines_def completeLines_no_feed)
next
  case (Cons bt rest)
  show ?case
  proof (cases "bt = CHR 0x0A")
    case True
    have e: "scanChunk rest [] acc = (partialLine rest, acc @ parseLogLines rest)" for acc
      using Cons.IH [of "[]" acc] by simp
    show ?thesis using True Cons.prems
      by (simp add: e SplitN_two parseLogLines_feed partialLine_feed toLogLine_def)
  next
    case False
    then have "CHR 0x0A \<notin> set (lineBuf @ [bt])" using Cons.prems by simp
    from Cons.IH [OF this, of chunkLines] False show ?thesis by simp
  qed
qed

lemma parseLogLines_append:
  "parseLogLines (a @ b) = parseLogLines a @ parseLogLines (partialLine a @ b)"
proof (induction a rule: completeLines.induct)
  case (1 bs)
  show ?case
  proof (cases "CHR 0x0A \<in> set bs")
    case False
    then show ?thesis
      by (simp add: partialLine_no_feed parseLogLines_def completeLines_no_feed)
  next
    case True
    define line where "line = takeWhile (\<lambda>b. b \<noteq> CHR 0x0A) bs"
    define rest where "rest = tl (dropWhile (\<lambda>b. b \<noteq> CHR 0x0A) bs)"
    have ne: "dropWhile (\<lambda>b. b \<noteq> CHR 0x0A) bs \<noteq> []"
      using True by auto
    have "hd (dropWhile (\<lambda>b. b \<noteq> CHR 0x0A) bs) = CHR 0x0A"
      using hd_dropWhile [OF ne] by simp
    with ne have d: "dropWhile (\<lambda>b. b \<noteq> CHR 0x0A) bs = CHR 0x0A # rest"
      unfolding rest_def by (cases "dropWhile (\<lambda>b. b \<noteq> CHR 0x0A) bs") auto
    have bs: "bs = line @ CHR 0x0A # rest"
      using takeWhile_dropWhile_id [of "\<lambda>b. b \<noteq> CHR 0x0A" bs] d line_def by simp
    have cl: "CHR 0x0A \<notin> set line"
      unfolding line_def using set_takeWhileD by fastforce
    have ih: "parseLogLines (rest @ b) = parseLogLines rest @ parseLogLines (partialLine rest @ b)"
      using "1" [OF True] rest_def by simp
    show ?thesis
      using parseLogLines_feed [OF cl, of "rest @ b"] parseLogLines_feed [OF cl, of rest]
      by (simp add: bs ih partialLine_feed)
  qed
qed

lemma followLoop_parse:
  "CHR 0x0A \<notin> set lineBuf \<Longrightarrow>
     concat (map LogLines (fst (followLoop containerName lineBuf reads)))
       = parseLogLines (lineBuf @ concat (map rd_bytes (readsDone reads)))"
proof (induction reads arbitrary: lineBuf)
  case Nil
  then show ?case by (simp add: parseLogLines_def completeLines_no_feed)
next
  case (Cons rd rds)
  have base: "parseLogLines lineBuf = []"
    using Cons.prems by (simp add: parseLogLines_def completeLines_no_feed)
  have pl: "partialLine lineBuf = lineBuf" using Cons.prems by (simp add: partialLine_no_feed)
  show ?case
  proof (cases "rd_bytes rd = []")
    case True
    then show ?thesis using Cons.IH [OF Cons.prems] base
      by (cases "rd_err rd") (simp_all add: split_beta)
  next
    case False
    have ih: "concat (map LogLines (fst (followLoop containerName (partialLine (lineBuf @ rd_bytes rd)) rds)))
       = parseLogLines (partialLine (lineBuf @ rd_bytes rd) @ concat (map rd_bytes (readsDone rds)))"
      by (rule Cons.IH) (rule partialLine_clean)
    have ap: "parseLogLines (lineBuf @ rd_bytes rd @ rest) =
        parseLogLines (lineBuf @ rd_bytes rd) @ parseLogLines (partialLine (lineBuf @ rd_bytes rd) @ rest)" for rest
      using parseLogLines_append [of "lineBuf @ rd_bytes rd" rest] by simp
    show ?thesis using False
      by (cases "rd_err rd") (simp_all add: split_beta scanChunk_parse [OF Cons.prems] ih ap)
  qed
qed

lemma followLoop_chunks:
  "CHR 0x0A \<notin> set lineBuf \<Longrightarrow>
     fst (followLoop containerName lineBuf reads) = chunksOf containerName lineBuf (readsDone reads)"
proof (induction reads arbitrary: lineBuf)
  case Nil
  then show ?case by simp
next
  case (Cons rd rds)
  show ?case
  proof (cases "rd_bytes rd = []")
    case True
    then show ?thesis using Cons.IH [OF Cons.prems]
      by (cases "rd_err rd") (simp_all add: split_beta)
  next
    case False
    have ih: "fst (followLoop containerName (partialLine (lineBuf @ rd_bytes rd)) rds)
       = chunksOf containerName (partialLine (lineBuf @ rd_bytes rd)) (readsDone rds)"
      by (rule Cons.IH) (rule partialLine_clean)
    show ?thesis using False
      by (cases "rd_err rd") (simp_all add: split_beta scanChunk_parse [OF Cons.prems] ih)
  qed
qed

text \<open>
  C6. Seen as a function from the bytes read to the log lines sent, the follower frames
  the stream as the specification says: the lines of all chunks together are the lines of
  the whole stream read (the incomplete line is carried from one read to the next), each
  split at its first space into timestamp and data, the lines without a space left out.
\<close>

theorem C6_log_parsing:
  "concat (map LogLines (fst (followContainerLogs containerName None reads)))
     = parseLogLines (concat (map rd_bytes (readsDone reads)))"
  using followLoop_parse [of "[]" containerName reads] by (simp add: followContainerLogs_def)

text \<open>
  C4, as the code has it. The follower sends one chunk for every read that brought at
  least one byte; the chunk holds the lines which that read completed, and holds none
  when the read completed no line with a space in it.
\<close>

theorem C4_chunk_per_read:
  "fst (followContainerLogs containerName None reads) = chunksOf containerName [] (readsDone reads)"
  using followLoop_chunks [of "[]" containerName reads] by (simp add: followContainerLogs_def)

text \<open>
  C4 as stated fails: a read of bytes without a line feed sends a chunk with no line.
\<close>

theorem C4_empty_chunk_delivered:
  "fst (followContainerLogs ''main'' None
          [\<lparr>rd_bytes = ''no newline yet'', rd_err = NoError, rd_ctxDone = False\<rparr>])
     = [\<lparr>ContainerName = ''main'', LogLines = []\<rparr>]"
  by (simp add: followContainerLogs_def)

section \<open>Properties of the pod tracker\<close>

lemma handleContainerStatus_out: "fst (handleContainerStatus pod cs) = waitingError cs"
  by (simp add: handleContainerStatus_def waitingError_def Sprintf_colon_def Let_def
      split: option.splits)

lemma handleContainerStatus_tracked:
  "TrackedContainers (snd (handleContainerStatus pod cs)) = TrackedContainers pod"
  by (simp add: handleContainerStatus_def Let_def split: option.splits)

lemma handleContainerStatuses_out:
  "fst (handleContainerStatuses pod statuses) = concat (map waitingError statuses)"
proof (induction statuses arbitrary: pod)
  case Nil
  then show ?case by simp
next
  case (Cons cs rest)
  show ?case
    using Cons.IH [of "snd (handleContainerStatus pod cs)"] handleContainerStatus_out [of pod cs]
    by (simp add: split_beta)
qed

lemma handleContainerStatuses_tracked:
  "TrackedContainers (snd (handleContainerStatuses pod statuses)) = TrackedContainers pod"
proof (induction statuses arbitrary: pod)
  case Nil
  then show ?case by simp
next
  case (Cons cs rest)
  show ?case
    using Cons.IH [of "snd (handleContainerStatus pod cs)"] handleContainerStatus_tracked [of pod cs]
    by (simp add: split_beta)
qed

lemma terminalSignals_waiting: "terminalSignals (concat (map waitingError statuses)) = []"
  by (induction statuses) (auto simp: terminalSignals_def waitingError_def split: option.splits)

lemma terminalSignals_append:
  "terminalSignals (a @ b) = terminalSignals a @ terminalSignals b"
  by (simp add: terminalSignals_def)

text \<open>
  C9. A container status that is waiting with reason ImagePullBackOff, ErrImagePull or
  CrashLoopBackOff makes the tracker send one ContainerError with the container's name
  and the message made of the reason, a colon, a space and the detail; a status that is
  waiting for another reason, or not waiting, sends none. A pod snapshot sends the errors
  of its init and main container statuses, in that order.
\<close>

theorem C9_waiting_container_error:
  "fst (handleContainerStatus pod cs) = waitingError cs \<and>
   fst (handleContainersState pod object) =
     concat (map waitingError
       (InitContainerStatuses (pod_Status object) @ ContainerStatuses (pod_Status object)))"
  using handleContainerStatuses_out
    [of pod "InitContainerStatuses (pod_Status object) @ ContainerStatuses (pod_Status object)"]
  by (simp add: handleContainerStatus_out handleContainersState_def split_beta)

lemma handlePodState_rule:
  "terminalSignals pre = [] \<Longrightarrow>
   completionRule (TrackedContainers pod) object
     (afterHandlePodState pre (handlePodState pod object))"
proof -
  assume pre: "terminalSignals pre = []"
  define statuses where
    "statuses = InitContainerStatuses (pod_Status object) @ ContainerStatuses (pod_Status object)"
  have o: "fst (handleContainerStatuses pod statuses) = concat (map waitingError statuses)"
    by (rule handleContainerStatuses_out)
  have t: "TrackedContainers (snd (handleContainerStatuses pod statuses)) = TrackedContainers pod"
    by (rule handleContainerStatuses_tracked)
  have q: "terminalSignals (fst (handleContainerStatuses pod statuses)) = []"
    by (simp add: o terminalSignals_waiting)
  have ne: "PodSucceeded \<noteq> PodFailed" by (simp add: PodSucceeded_def PodFailed_def)
  obtain out pod' where h: "handleContainerStatuses pod statuses = (out, pod')"
    by (cases "handleContainerStatuses pod statuses")
  from h q t have q': "terminalSignals out = []" and t': "TrackedContainers pod' = TrackedContainers pod"
    by simp_all
  show ?thesis
    using pre q' t' ne
    by (simp add: completionRule_def afterHandlePodState_def handlePodState_def
        handleContainersState_def statuses_def [symmetric] h terminalSignals_append
        terminalSignals_def)
qed

lemma startContainers_tracked:
  "TrackedContainers (snd (startContainers pod names)) = TrackedContainers pod @ names"
  by (induction names arbitrary: pod) (simp_all add: split_beta Let_def)

lemma startContainers_out:
  "terminalSignals (fst (startContainers pod names)) = []"
  by (induction names arbitrary: pod) (simp_all add: split_beta Let_def terminalSignals_def)

text \<open>
  C7. Whenever the loop handles a pod snapshot (on Modified, on Added, on a container
  that is done), with the containers tracked at that moment: none tracked and phase
  Succeeded sends Succeeded and Track returns nil; none tracked and phase Failed sends
  Failed and Track returns nil; otherwise neither is sent and the loop goes on.
\<close>

theorem C7_completion_rule:
  "completionRule (TrackedContainers pod) object
     (PodTracker_select get pod (objectModified object)) \<and>
   completionRule
     (if pt_State pod = Initial
      then TrackedContainers pod @ InitContainers (pod_Spec podManifest)
             @ Containers (pod_Spec podManifest)
      else TrackedContainers pod) object
     (PodTracker_select (Inr podManifest) pod (objectAdded object)) \<and>
   (pt_lastObject pod = Some object \<longrightarrow>
      completionRule (filter (\<lambda>name. name \<noteq> containerName) (TrackedContainers pod)) object
        (PodTracker_select get pod (containerDone containerName)))"
proof (intro conjI impI)
  show "completionRule (TrackedContainers pod) object
     (PodTracker_select get pod (objectModified object))"
    using handlePodState_rule [of "[]" "pod\<lparr>pt_lastObject := Some object\<rparr>" object]
    by (simp add: terminalSignals_def)
next
  define names where
    "names = InitContainers (pod_Spec podManifest) @ Containers (pod_Spec podManifest)"
  define pod2 where "pod2 = pod\<lparr>pt_lastObject := Some object, pt_State := ResourceAdded\<rparr>"
  obtain out pod3 where s: "startContainers pod2 names = (out, pod3)"
    by (cases "startContainers pod2 names")
  have t3: "TrackedContainers pod3 = TrackedContainers pod @ names"
    using startContainers_tracked [of pod2 names] s by (simp add: pod2_def)
  have o3: "terminalSignals (send_Added # out) = []"
    using startContainers_out [of pod2 names] s by (simp add: terminalSignals_def)
  show "completionRule
     (if pt_State pod = Initial
      then TrackedContainers pod @ InitContainers (pod_Spec podManifest)
             @ Containers (pod_Spec podManifest)
      else TrackedContainers pod) object
     (PodTracker_select (Inr podManifest) pod (objectAdded object))"
  proof (cases "pt_State pod = Initial")
    case True
    then show ?thesis
      using handlePodState_rule [OF o3, of pod3 object] t3 s
      by (simp add: runContainersTrackers_def names_def pod2_def)
  next
    case False
    then show ?thesis
      using handlePodState_rule [of "[]" "pod\<lparr>pt_lastObject := Some object\<rparr>" object]
      by (simp add: terminalSignals_def)
  qed
next
  assume l: "pt_lastObject pod = Some object"
  show "completionRule (filter (\<lambda>name. name \<noteq> containerName) (TrackedContainers pod)) object
        (PodTracker_select get pod (containerDone containerName))"
    using handlePodState_rule [of "[]"
        "pod\<lparr>TrackedContainers := filter (\<lambda>name. name \<noteq> containerName) (TrackedContainers pod)\<rparr>"
        object] l
    by (simp add: terminalSignals_def)
qed

theorem C7_completion_rule_witness:
  "pt_lastObject
     (NewPodTracker\<lparr>TrackedContainers := [''main''],
        pt_lastObject := Some ((examplePod ''job-1'')\<lparr>pod_Status :=
          \<lparr>Phase = PodSucceeded, InitContainerStatuses = [], ContainerStatuses = []\<rparr>\<rparr>)\<rparr>)
     = Some ((examplePod ''job-1'')\<lparr>pod_Status :=
          \<lparr>Phase = PodSucceeded, InitContainerStatuses = [], ContainerStatuses = []\<rparr>\<rparr>) \<and>
   completionRule []
     ((examplePod ''job-1'')\<lparr>pod_Status :=
          \<lparr>Phase = PodSucceeded, InitContainerStatuses = [], ContainerStatuses = []\<rparr>\<rparr>)
     (PodTracker_select (Inl ErrTrackTimeout)
        (NewPodTracker\<lparr>TrackedContainers := [''main''],
           pt_lastObject := Some ((examplePod ''job-1'')\<lparr>pod_Status :=
             \<lparr>Phase = PodSucceeded, InitContainerStatuses = [], ContainerStatuses = []\<rparr>\<rparr>)\<rparr>)
        (containerDone ''main''))"
  using C7_completion_rule
    [of "NewPodTracker\<lparr>TrackedContainers := [''main''],
           pt_lastObject := Some ((examplePod ''job-1'')\<lparr>pod_Status :=
             \<lparr>Phase = PodSucceeded, InitContainerStatuses = [], ContainerStatuses = []\<rparr>\<rparr>)\<rparr>"
        "(examplePod ''job-1'')\<lparr>pod_Status :=
             \<lparr>Phase = PodSucceeded, InitContainerStatuses = [], ContainerStatuses = []\<rparr>\<rparr>"
        "Inl ErrTrackTimeout" "examplePod ''job-1''" "''main''"]
  by (simp add: NewPodTracker_def)

section \<open>Properties of TrackPod\<close>

text \<open>
  An error other than StopTrack that a callback returns is what TrackPod returns, in
  all five cases.
\<close>

lemma TrackPod_select_error_returned:
  "err \<noteq> StopTrack \<Longrightarrow>
     (feed_Added feed = Some err \<longrightarrow> TrackPod_select feed recv_Added = Some (Some err)) \<and>
     (feed_Succeeded feed = Some err \<longrightarrow>
        TrackPod_select feed recv_Succeeded = Some (Some err)) \<and>
     (feed_Failed feed = Some err \<longrightarrow> TrackPod_select feed recv_Failed = Some (Some err)) \<and>
     (feed_ContainerLogChunk feed chunk = Some err \<longrightarrow>
        TrackPod_select feed (recv_ContainerLogChunk chunk) = Some (Some err)) \<and>
     (feed_ContainerError feed containerError = Some err \<longrightarrow>
        TrackPod_select feed (recv_ContainerError containerError) = Some (Some err))"
  by simp

text \<open>
  StopTrack from the Added or the ContainerLogChunk callback makes TrackPod return nil.
\<close>

lemma TrackPod_select_StopTrack_nil:
  "(feed_Added feed = Some StopTrack \<longrightarrow> TrackPod_select feed recv_Added = Some None) \<and>
   (feed_ContainerLogChunk feed chunk = Some StopTrack \<longrightarrow>
      TrackPod_select feed (recv_ContainerLogChunk chunk) = Some None)"
  by simp

text \<open>
  C1 fails on the code for three of the five callbacks. With a feed whose callbacks all
  return StopTrack, TrackPod returns the StopTrack error itself after ContainerError,
  Succeeded and Failed (the test for a non-nil error comes first there), and nil after
  Added and ContainerLogChunk (the test for StopTrack comes first).
\<close>

theorem C1_StopTrack_returned_as_error:
  "TrackPod stopFeed [recv_ContainerError \<lparr>err_Message = ''ErrImagePull: no image'',
       err_ContainerName = ''main''\<rparr>] = Some (Some StopTrack) \<and>
   TrackPod stopFeed [recv_Succeeded] = Some (Some StopTrack) \<and>
   TrackPod stopFeed [recv_Failed] = Some (Some StopTrack) \<and>
   TrackPod stopFeed [recv_Added] = Some None \<and>
   TrackPod stopFeed [recv_ContainerLogChunk \<lparr>ContainerName = ''main'', LogLines = []\<rparr>]
     = Some None"
  by (simp add: stopFeed_def)

section \<open>Properties of the Deployment tracker\<close>

subsection \<open>One pass of the loop\<close>

lemma handleDeploymentState_handles:
  assumes "handles env object"
  shows "\<exists>report d1.
     handleDeploymentState env d object =
       ([send_dep_StatusReport report], Result (\<not> prevReady d \<and> newReady env d object, d1)) \<and>
     dep_State d1 = dep_State d \<and> dep_TrackedPods d1 = dep_TrackedPods d \<and>
     dep_lastObject d1 = Some object \<and> CurrentReady d1 = newReady env d object"
proof -
  from assms obtain n where n: "Replicas (dep_Spec object) = Some n"
    by (auto simp: handles_def)
  from assms have l: "(if dep_Debug env then dep_ListEventsForObject env object else None) = None"
    by (simp add: handles_def)
  show ?thesis
    by (cases "dep_lastObject d")
      (simp_all add: handleDeploymentState_def l n NewDeploymentStatus_def prevReady_def
        newReady_def Let_def)
qed

lemma handleDeploymentState_fails:
  assumes "\<not> handles env object"
  shows "handleDeploymentState env d object = ([], NilDereference) \<or>
         (\<exists>err. handleDeploymentState env d object = ([], Error err))"
proof (cases "(if dep_Debug env then dep_ListEventsForObject env object else None)")
  case (Some err)
  then show ?thesis by (simp add: handleDeploymentState_def)
next
  case None
  with assms have "Replicas (dep_Spec object) = None" by (simp add: handles_def)
  with None show ?thesis
    by (simp add: handleDeploymentState_def NewDeploymentStatus_def Let_def)
qed

lemma Track_select_resourceAdded_handles:
  assumes "handles env object"
  shows "\<exists>report d'.
     Track_select env d (resourceAdded object) =
       (send_dep_StatusReport report
          # (if dep_State d = [] then [send_dep_Added (\<not> prevReady d \<and> newReady env d object)]
             else [])
          @ [run_ReplicaSetsInformer, run_dep_PodsInformer, run_dep_EventsInformer object],
        Continue d') \<and>
     dep_State d' = (if dep_State d = [] then ''Started'' else dep_State d) \<and>
     dep_TrackedPods d' = dep_TrackedPods d \<and>
     dep_lastObject d' = Some object \<and> CurrentReady d' = newReady env d object"
proof -
  from handleDeploymentState_handles [OF assms, of d] obtain report d1 where
    h: "handleDeploymentState env d object =
       ([send_dep_StatusReport report], Result (\<not> prevReady d \<and> newReady env d object, d1))"
    and s: "dep_State d1 = dep_State d" "dep_TrackedPods d1 = dep_TrackedPods d"
      "dep_lastObject d1 = Some object" "CurrentReady d1 = newReady env d object"
    by blast
  show ?thesis
    by (simp add: h s runReplicaSetsInformer_def runPodsInformer_def runEventsInformer_def)
qed

lemma Track_select_resourceModified_handles:
  assumes "handles env object"
  shows "\<exists>report d'.
     Track_select env d (resourceModified object) =
       (send_dep_StatusReport report
          # (if \<not> prevReady d \<and> newReady env d object then [send_dep_Ready True] else []),
        Continue d') \<and>
     dep_State d' = dep_State d \<and> dep_TrackedPods d' = dep_TrackedPods d \<and>
     dep_lastObject d' = Some object \<and> CurrentReady d' = newReady env d object"
proof -
  from handleDeploymentState_handles [OF assms, of d] obtain report d1 where
    h: "handleDeploymentState env d object =
       ([send_dep_StatusReport report], Result (\<not> prevReady d \<and> newReady env d object, d1))"
    and s: "dep_State d1 = dep_State d" "dep_TrackedPods d1 = dep_TrackedPods d"
      "dep_lastObject d1 = Some object" "CurrentReady d1 = newReady env d object"
    by blast
  show ?thesis by (simp add: h s)
qed

lemma Track_select_resource_fails:
  assumes "\<not> handles env object"
  shows "fst (Track_select env d (resourceAdded object)) = [] \<and>
         \<not> goesOn (snd (Track_select env d (resourceAdded object))) \<and>
         fst (Track_select env d (resourceModified object)) = [] \<and>
         \<not> goesOn (snd (Track_select env d (resourceModified object)))"
  using handleDeploymentState_fails [OF assms, of d] by auto

text \<open>What one pass of the loop does to the state string and to the Added feed.\<close>

lemma Track_select_Added_shape:
  "filter dep_isAdded (fst (Track_select env d ev)) =
     (case ev of
        resourceAdded object \<Rightarrow>
          (if handles env object \<and> dep_State d = []
           then [send_dep_Added (\<not> prevReady d \<and> newReady env d object)] else [])
      | _ \<Rightarrow> [])"
proof (cases ev)
  case (resourceAdded object)
  show ?thesis
  proof (cases "handles env object")
    case True
    from Track_select_resourceAdded_handles [OF True, of d] show ?thesis
      using resourceAdded True by auto
  next
    case False
    from Track_select_resource_fails [OF False, of d] show ?thesis
      using resourceAdded False by simp
  qed
next
  case (resourceModified object)
  show ?thesis
  proof (cases "handles env object")
    case True
    from Track_select_resourceModified_handles [OF True, of d] show ?thesis
      using resourceModified by auto
  next
    case False
    from Track_select_resource_fails [OF False, of d] show ?thesis
      using resourceModified by simp
  qed
qed (auto simp: runPodTracker_def Let_def split: option.splits sum.splits)

lemma Track_select_State:
  assumes "Track_select env d ev = (out, Continue d')"
  shows "dep_State d' =
     (case ev of
        resourceAdded object \<Rightarrow> (if dep_State d = [] then ''Started'' else dep_State d)
      | resourceDeleted object \<Rightarrow> ''Deleted''
      | resourceFailed reason \<Rightarrow> ''Failed''
      | _ \<Rightarrow> dep_State d)"
proof (cases ev)
  case (resourceAdded object)
  show ?thesis
  proof (cases "handles env object")
    case True
    from Track_select_resourceAdded_handles [OF True, of d] show ?thesis
      using resourceAdded assms by auto
  next
    case False
    from Track_select_resource_fails [OF False, of d] show ?thesis
      using resourceAdded assms by simp
  qed
next
  case (resourceModified object)
  show ?thesis
  proof (cases "handles env object")
    case True
    from Track_select_resourceModified_handles [OF True, of d] show ?thesis
      using resourceModified assms by auto
  next
    case False
    from Track_select_resource_fails [OF False, of d] show ?thesis
      using resourceModified assms by simp
  qed
qed (use assms in \<open>auto simp: runPodTracker_def Let_def split: option.splits sum.splits\<close>)

lemma Track_loop_no_Added:
  "dep_State d \<noteq> [] \<Longrightarrow> filter dep_isAdded (fst (Track_loop env d evs)) = []"
proof (induction evs arbitrary: d)
  case Nil
  then show ?case by simp
next
  case (Cons ev evs)
  obtain out r where s: "Track_select env d ev = (out, r)" by (cases "Track_select env d ev")
  have o: "filter dep_isAdded out = []"
    using Track_select_Added_shape [of env d ev] s Cons.prems by (simp split: DeploymentEvent.splits)
  show ?case
  proof (cases r)
    case (Continue d')
    from Track_select_State [of env d ev out d'] s Continue Cons.prems
    have "dep_State d' \<noteq> []" by (auto split: DeploymentEvent.splits)
    from Cons.IH [OF this] show ?thesis using s Continue o by (simp add: split_beta)
  next
    case (Return e)
    then show ?thesis using s o by simp
  next
    case Panic
    then show ?thesis using s o by simp
  qed
qed

lemma Track_loop_Added_once:
  "length (filter dep_isAdded (fst (Track_loop env d evs))) \<le> 1"
proof (induction evs arbitrary: d)
  case Nil
  then show ?case by simp
next
  case (Cons ev evs)
  obtain out r where s: "Track_select env d ev = (out, r)" by (cases "Track_select env d ev")
  have o: "length (filter dep_isAdded out) \<le> 1"
    using Track_select_Added_shape [of env d ev] s by (simp split: DeploymentEvent.splits)
  show ?case
  proof (cases r)
    case (Continue d')
    show ?thesis
    proof (cases "filter dep_isAdded out = []")
      case True
      then show ?thesis using Cons.IH [of d'] s Continue by (simp add: split_beta)
    next
      case False
      then have "\<exists>object. ev = resourceAdded object \<and> dep_State d = []"
        using Track_select_Added_shape [of env d ev] s
        by (auto split: DeploymentEvent.splits if_splits)
      with Track_select_State [of env d ev out d'] s Continue
      have "dep_State d' \<noteq> []" by auto
      from Track_loop_no_Added [OF this, of env evs] show ?thesis
        using s Continue o by (simp add: split_beta)
    qed
  next
    case (Return e)
    then show ?thesis using s o by simp
  next
    case Panic
    then show ?thesis using s o by simp
  qed
qed

lemma dep_AddedPrecedes_quiet:
  "\<forall>x\<in>set out. \<not> dep_isAdded x \<and> \<not> dep_isReady x \<and> \<not> dep_isFailed x \<Longrightarrow>
     dep_AddedPrecedes (out @ rest) = dep_AddedPrecedes rest"
  by (induction out) auto

lemma Track_select_quiet:
  assumes "dep_AddedFirst (ev # evs)" and "\<forall>object. ev \<noteq> resourceAdded object"
  shows "\<forall>x\<in>set (fst (Track_select env d ev)).
            \<not> dep_isAdded x \<and> \<not> dep_isReady x \<and> \<not> dep_isFailed x"
  using assms
  by (cases ev)
    (auto simp: runPodTracker_def NewDeploymentStatus_def Let_def
      split: option.splits sum.splits)

lemma Track_loop_AddedPrecedes:
  "dep_State d = [] \<Longrightarrow> dep_AddedFirst evs \<Longrightarrow> dep_AddedPrecedes (fst (Track_loop env d evs))"
proof (induction evs arbitrary: d)
  case Nil
  then show ?case by simp
next
  case (Cons ev evs)
  obtain out r where s: "Track_select env d ev = (out, r)" by (cases "Track_select env d ev")
  show ?case
  proof (cases "\<exists>object. ev = resourceAdded object")
    case True
    then obtain object where ev: "ev = resourceAdded object" by blast
    show ?thesis
    proof (cases "handles env object")
      case True
      from Track_select_resourceAdded_handles [OF True, of d] show ?thesis
        using ev Cons.prems(1) by (auto simp: split_beta)
    next
      case False
      from Track_select_resource_fails [OF False, of d] s ev
      have "out = []" and "\<not> goesOn r" by simp_all
      then show ?thesis using s by (cases r) simp_all
    qed
  next
    case False
    then have ne: "\<forall>object. ev \<noteq> resourceAdded object" by simp
    from Track_select_quiet [OF Cons.prems(2) ne, of env d] s
    have q: "\<forall>x\<in>set out. \<not> dep_isAdded x \<and> \<not> dep_isReady x \<and> \<not> dep_isFailed x" by simp
    have rest: "dep_AddedFirst evs" using Cons.prems(2) ne by (cases ev) simp_all
    show ?thesis
    proof (cases r)
      case (Continue d')
      from Track_select_State [of env d ev out d'] s Continue Cons.prems ne
      have "dep_State d' = []" by (cases ev) simp_all
      from Cons.IH [OF this rest] show ?thesis
        using s Continue dep_AddedPrecedes_quiet [OF q] by (simp add: split_beta)
    next
      case (Return e)
      then show ?thesis using s dep_AddedPrecedes_quiet [OF q, of "[]"] by simp
    next
      case Panic
      then show ?thesis using s dep_AddedPrecedes_quiet [OF q, of "[]"] by simp
    qed
  qed
qed

lemma Track_select_Ready_shape:
  "filter dep_isReady (fst (Track_select env d ev)) =
     (case ev of
        resourceModified object \<Rightarrow>
          (if handles env object \<and> \<not> prevReady d \<and> newReady env d object
           then [send_dep_Ready True] else [])
      | _ \<Rightarrow> [])"
proof (cases ev)
  case (resourceAdded object)
  show ?thesis
  proof (cases "handles env object")
    case True
    from Track_select_resourceAdded_handles [OF True, of d] show ?thesis
      using resourceAdded by auto
  next
    case False
    from Track_select_resource_fails [OF False, of d] show ?thesis
      using resourceAdded by simp
  qed
next
  case (resourceModified object)
  show ?thesis
  proof (cases "handles env object")
    case True
    from Track_select_resourceModified_handles [OF True, of d] show ?thesis
      using resourceModified True by auto
  next
    case False
    from Track_select_resource_fails [OF False, of d] show ?thesis
      using resourceModified False by simp
  qed
qed (auto simp: runPodTracker_def Let_def split: option.splits sum.splits)

lemma Track_select_TrackedPods:
  assumes "Track_select env d ev = (out, Continue d')"
  shows "dep_TrackedPods d' =
     (case ev of
        podAdded pod \<Rightarrow> dep_TrackedPods d @ [pod_Name pod]
      | podDone podName \<Rightarrow> filter (\<lambda>name. name \<noteq> podName) (dep_TrackedPods d)
      | _ \<Rightarrow> dep_TrackedPods d)"
proof (cases ev)
  case (resourceAdded object)
  show ?thesis
  proof (cases "handles env object")
    case True
    from Track_select_resourceAdded_handles [OF True, of d] show ?thesis
      using resourceAdded assms by auto
  next
    case False
    from Track_select_resource_fails [OF False, of d] show ?thesis
      using resourceAdded assms by simp
  qed
next
  case (resourceModified object)
  show ?thesis
  proof (cases "handles env object")
    case True
    from Track_select_resourceModified_handles [OF True, of d] show ?thesis
      using resourceModified assms by auto
  next
    case False
    from Track_select_resource_fails [OF False, of d] show ?thesis
      using resourceModified assms by simp
  qed
qed (use assms in \<open>auto simp: runPodTracker_def Let_def split: option.splits sum.splits\<close>)

lemma Track_loop_distinct:
  "distinct (dep_TrackedPods d) \<Longrightarrow> podsFresh (dep_TrackedPods d) evs \<Longrightarrow>
     Track_loop env d evs = (out, Continue d') \<Longrightarrow> distinct (dep_TrackedPods d')"
proof (induction evs arbitrary: d out)
  case Nil
  then show ?case by simp
next
  case (Cons ev evs)
  obtain out1 r1 where s: "Track_select env d ev = (out1, r1)"
    by (cases "Track_select env d ev")
  from Cons.prems(3) s obtain d1 where r1: "r1 = Continue d1"
    by (cases r1) simp_all
  obtain out2 r2 where l: "Track_loop env d1 evs = (out2, r2)"
    by (cases "Track_loop env d1 evs")
  from Cons.prems(3) s r1 l have r2: "r2 = Continue d'" by simp
  have t: "dep_TrackedPods d1 =
     (case ev of
        podAdded pod \<Rightarrow> dep_TrackedPods d @ [pod_Name pod]
      | podDone podName \<Rightarrow> filter (\<lambda>name. name \<noteq> podName) (dep_TrackedPods d)
      | _ \<Rightarrow> dep_TrackedPods d)"
    using Track_select_TrackedPods [of env d ev out1 d1] s r1 by simp
  have "distinct (dep_TrackedPods d1) \<and> podsFresh (dep_TrackedPods d1) evs"
    using t Cons.prems(1,2) by (cases ev) auto
  then show ?case using Cons.IH [of d1 out2] l r2 by simp
qed

section \<open>Properties of the DaemonSet tracker\<close>

lemma DaemonSet_Track_select_Added_shape:
  "filter ds_isAdded (fst (DaemonSet_Track_select env d ev)) =
     (case ev of
        ds_resourceAdded object \<Rightarrow>
          (if snd (handleDaemonSetStatus env object) = None \<and> ds_State d = []
           then [send_ds_Added (fst (handleDaemonSetStatus env object))] else [])
      | _ \<Rightarrow> [])"
  by (cases ev)
    (auto simp: ds_runPodsInformer_def ds_runEventsInformer_def ds_runPodTracker_def Let_def
      split: option.splits prod.splits)

lemma DaemonSet_Track_select_Ready_shape:
  "filter ds_isReady (fst (DaemonSet_Track_select env d ev)) =
     (case ev of
        ds_resourceModified object \<Rightarrow>
          (if handleDaemonSetStatus env object = (True, None) then [send_ds_Ready True] else [])
      | _ \<Rightarrow> [])"
  by (cases ev)
    (auto simp: ds_runPodsInformer_def ds_runEventsInformer_def ds_runPodTracker_def Let_def
      split: option.splits prod.splits)

lemma DaemonSet_Track_select_State:
  assumes "DaemonSet_Track_select env d ev = (out, Continue d')"
  shows "ds_State d' =
     (case ev of
        ds_resourceAdded object \<Rightarrow> (if ds_State d = [] then ''Started'' else ds_State d)
      | ds_resourceDeleted object \<Rightarrow> ''Deleted''
      | ds_resourceFailed reason \<Rightarrow> ''Failed''
      | _ \<Rightarrow> ds_State d)"
  using assms
  by (cases ev)
    (auto simp: ds_runPodTracker_def Let_def split: option.splits prod.splits if_splits)

lemma DaemonSet_Track_loop_no_Added:
  "ds_State d \<noteq> [] \<Longrightarrow> filter ds_isAdded (fst (DaemonSet_Track_loop env d evs)) = []"
proof (induction evs arbitrary: d)
  case Nil
  then show ?case by simp
next
  case (Cons ev evs)
  obtain out r where s: "DaemonSet_Track_select env d ev = (out, r)"
    by (cases "DaemonSet_Track_select env d ev")
  have o: "filter ds_isAdded out = []"
    using DaemonSet_Track_select_Added_shape [of env d ev] s Cons.prems
    by (simp split: DaemonSetEvent.splits)
  show ?case
  proof (cases r)
    case (Continue d')
    from DaemonSet_Track_select_State [of env d ev out d'] s Continue Cons.prems
    have "ds_State d' \<noteq> []" by (auto split: DaemonSetEvent.splits)
    from Cons.IH [OF this] show ?thesis using s Continue o by (simp add: split_beta)
  next
    case (Return e)
    then show ?thesis using s o by simp
  next
    case Panic
    then show ?thesis using s o by simp
  qed
qed

lemma DaemonSet_Track_loop_Added_once:
  "length (filter ds_isAdded (fst (DaemonSet_Track_loop env d evs))) \<le> 1"
proof (induction evs arbitrary: d)
  case Nil
  then show ?case by simp
next
  case (Cons ev evs)
  obtain out r where s: "DaemonSet_Track_select env d ev = (out, r)"
    by (cases "DaemonSet_Track_select env d ev")
  have o: "length (filter ds_isAdded out) \<le> 1"
    using DaemonSet_Track_select_Added_shape [of env d ev] s
    by (simp split: DaemonSetEvent.splits)
  show ?case
  proof (cases r)
    case (Continue d')
    show ?thesis
    proof (cases "filter ds_isAdded out = []")
      case True
      then show ?thesis using Cons.IH [of d'] s Continue by (simp add: split_beta)
    next
      case False
      then have "\<exists>object. ev = ds_resourceAdded object \<and> ds_State d = []"
        using DaemonSet_Track_select_Added_shape [of env d ev] s
        by (auto split: DaemonSetEvent.splits if_splits)
      with DaemonSet_Track_select_State [of env d ev out d'] s Continue
      have "ds_State d' \<noteq> []" by auto
      from DaemonSet_Track_loop_no_Added [OF this, of env evs] show ?thesis
        using s Continue o by (simp add: split_beta)
    qed
  next
    case (Return e)
    then show ?thesis using s o by simp
  next
    case Panic
    then show ?thesis using s o by simp
  qed
qed

lemma ds_AddedPrecedes_quiet:
  "\<forall>x\<in>set out. \<not> ds_isAdded x \<and> \<not> ds_isReady x \<and> \<not> ds_isFailed x \<Longrightarrow>
     ds_AddedPrecedes (out @ rest) = ds_AddedPrecedes rest"
  by (induction out) auto

lemma DaemonSet_Track_select_quiet:
  assumes "ds_AddedFirst (ev # evs)" and "\<forall>object. ev \<noteq> ds_resourceAdded object"
  shows "\<forall>x\<in>set (fst (DaemonSet_Track_select env d ev)).
            \<not> ds_isAdded x \<and> \<not> ds_isReady x \<and> \<not> ds_isFailed x"
  using assms
  by (cases ev) (auto simp: ds_runPodTracker_def Let_def split: option.splits)

lemma DaemonSet_Track_select_first_Added:
  assumes "ds_State d = []"
  shows "(\<exists>report ready d'.
            DaemonSet_Track_select env d (ds_resourceAdded object) =
              ([send_ds_StatusReport report, send_ds_Added ready, run_ds_PodsInformer,
                run_ds_EventsInformer], Continue d')) \<or>
         (\<exists>report err.
            DaemonSet_Track_select env d (ds_resourceAdded object) =
              ([send_ds_StatusReport report], Return (Some err)))"
  using assms
  by (auto simp: ds_runPodsInformer_def ds_runEventsInformer_def Let_def
      split: option.splits prod.splits)

lemma DaemonSet_Track_loop_AddedPrecedes:
  "ds_State d = [] \<Longrightarrow> ds_AddedFirst evs \<Longrightarrow>
     ds_AddedPrecedes (fst (DaemonSet_Track_loop env d evs))"
proof (induction evs arbitrary: d)
  case Nil
  then show ?case by simp
next
  case (Cons ev evs)
  obtain out r where s: "DaemonSet_Track_select env d ev = (out, r)"
    by (cases "DaemonSet_Track_select env d ev")
  show ?case
  proof (cases "\<exists>object. ev = ds_resourceAdded object")
    case True
    then obtain object where ev: "ev = ds_resourceAdded object" by blast
    from DaemonSet_Track_select_first_Added [OF Cons.prems(1), of env object]
    show ?thesis using ev by (auto simp: split_beta)
  next
    case False
    then have ne: "\<forall>object. ev \<noteq> ds_resourceAdded object" by simp
    from DaemonSet_Track_select_quiet [OF Cons.prems(2) ne, of env d] s
    have q: "\<forall>x\<in>set out. \<not> ds_isAdded x \<and> \<not> ds_isReady x \<and> \<not> ds_isFailed x" by simp
    have rest: "ds_AddedFirst evs" using Cons.prems(2) ne by (cases ev) simp_all
    show ?thesis
    proof (cases r)
      case (Continue d')
      from DaemonSet_Track_select_State [of env d ev out d'] s Continue Cons.prems ne
      have "ds_State d' = []" by (cases ev) simp_all
      from Cons.IH [OF this rest] show ?thesis
        using s Continue ds_AddedPrecedes_quiet [OF q] by (simp add: split_beta)
    next
      case (Return e)
      then show ?thesis using s ds_AddedPrecedes_quiet [OF q, of "[]"] by simp
    next
      case Panic
      then show ?thesis using s ds_AddedPrecedes_quiet [OF q, of "[]"] by simp
    qed
  qed
qed

lemma dep_Added_in_filter:
  "send_dep_Added ready \<in> set out \<Longrightarrow> filter dep_isAdded out \<noteq> []"
  by (induction out) auto

lemma ds_Added_in_filter:
  "send_ds_Added ready \<in> set out \<Longrightarrow> filter ds_isAdded out \<noteq> []"
  by (induction out) auto

section \<open>Feed order, readiness and pod trackers of the controller trackers\<close>

text \<open>
  C2 as stated fails: after a pod was added, a second Added for the same name, while the
  name is in TrackedPods, sends a second AddedPod, starts a second pod tracker and puts
  the name into TrackedPods a second time.
\<close>

theorem C2_duplicate_AddedPod:
  "fst (Track exampleEnv
          [resourceAdded (exampleDeployment False),
           podAdded (examplePod ''web-1''), podAdded (examplePod ''web-1'')])
     = [run_DeploymentInformer, send_dep_StatusReport (exampleReport False),
        send_dep_Added False, run_ReplicaSetsInformer, run_dep_PodsInformer,
        run_dep_EventsInformer (exampleDeployment False),
        send_dep_AddedPod
          \<lparr>rsp_Name = ''web-1'', rsp_ReplicaSet = \<lparr>rs_Name = ''rs-new'', IsNew = True\<rparr>\<rparr>,
        run_dep_PodTracker ''web-1'' ''rs-new'',
        send_dep_AddedPod
          \<lparr>rsp_Name = ''web-1'', rsp_ReplicaSet = \<lparr>rs_Name = ''rs-new'', IsNew = True\<rparr>\<rparr>,
        run_dep_PodTracker ''web-1'' ''rs-new''] \<and>
   (case snd (Track exampleEnv
          [resourceAdded (exampleDeployment False),
           podAdded (examplePod ''web-1''), podAdded (examplePod ''web-1'')
           :: (bool, unit) DeploymentEvent]) of
      Continue d \<Rightarrow> dep_TrackedPods d
    | _ \<Rightarrow> []) = [''web-1'', ''web-1'']"
  by (simp add: Let_def Track_def exampleEnv_def exampleDeployment_def examplePod_def
      exampleReport_def handleDeploymentState_def NewTracker_def NewDeploymentStatus_def
      runReplicaSetsInformer_def runPodsInformer_def runEventsInformer_def runPodTracker_def)

text \<open>
  C2, as the code has it. Every Added received for a pod sends one AddedPod, starts one
  pod tracker and appends the name to TrackedPods, whether or not the name is there
  already. A pod name has at most one live pod tracker (TrackedPods holds no name twice)
  as long as no Added is received for a name that is in TrackedPods at that moment.
\<close>

theorem C2_one_tracker_per_Added:
  "(IsReplicaSetNew env (dep_lastObject d) (knownReplicaSets d) (GetPodReplicaSetName env pod)
      = Inr isNew \<longrightarrow>
    Track_select env d (podAdded pod) =
      ([send_dep_AddedPod
          \<lparr>rsp_Name = pod_Name pod,
           rsp_ReplicaSet = \<lparr>rs_Name = GetPodReplicaSetName env pod, IsNew = isNew\<rparr>\<rparr>,
        run_dep_PodTracker (pod_Name pod) (GetPodReplicaSetName env pod)],
       Continue (d\<lparr>dep_TrackedPods := dep_TrackedPods d @ [pod_Name pod]\<rparr>))) \<and>
   (podsFresh [] evs \<longrightarrow>
      (case snd (Track env evs) of
         Continue d' \<Rightarrow> distinct (dep_TrackedPods d')
       | _ \<Rightarrow> True))"
proof (intro conjI impI)
  assume "IsReplicaSetNew env (dep_lastObject d) (knownReplicaSets d)
            (GetPodReplicaSetName env pod) = Inr isNew"
  then show "Track_select env d (podAdded pod) =
      ([send_dep_AddedPod
          \<lparr>rsp_Name = pod_Name pod,
           rsp_ReplicaSet = \<lparr>rs_Name = GetPodReplicaSetName env pod, IsNew = isNew\<rparr>\<rparr>,
        run_dep_PodTracker (pod_Name pod) (GetPodReplicaSetName env pod)],
       Continue (d\<lparr>dep_TrackedPods := dep_TrackedPods d @ [pod_Name pod]\<rparr>))"
    by (simp add: runPodTracker_def Let_def)
next
  assume f: "podsFresh [] evs"
  obtain out r where l: "Track_loop env NewTracker evs = (out, r)"
    by (cases "Track_loop env NewTracker evs")
  show "case snd (Track env evs) of
         Continue d' \<Rightarrow> distinct (dep_TrackedPods d')
       | _ \<Rightarrow> True"
  proof (cases r)
    case (Continue d')
    have "distinct (dep_TrackedPods d')"
      using Track_loop_distinct [of NewTracker evs env out d'] f l Continue
      by (simp add: NewTracker_def)
    then show ?thesis using l Continue by (simp add: Track_def)
  next
    case (Return e)
    then show ?thesis using l by (simp add: Track_def)
  next
    case Panic
    then show ?thesis using l by (simp add: Track_def)
  qed
qed

theorem C2_one_tracker_per_Added_witness:
  "IsReplicaSetNew exampleEnv (dep_lastObject (NewTracker :: (bool, unit) Tracker))
     (knownReplicaSets (NewTracker :: (bool, unit) Tracker))
     (GetPodReplicaSetName exampleEnv (examplePod ''web-1'')) = Inr True \<and>
   fst (Track_select exampleEnv (NewTracker :: (bool, unit) Tracker)
          (podAdded (examplePod ''web-1'')))
     = [send_dep_AddedPod
          \<lparr>rsp_Name = ''web-1'', rsp_ReplicaSet = \<lparr>rs_Name = ''rs-new'', IsNew = True\<rparr>\<rparr>,
        run_dep_PodTracker ''web-1'' ''rs-new''] \<and>
   podsFresh []
     [resourceAdded (exampleDeployment False), podAdded (examplePod ''web-1''),
      podDone ''web-1'', podAdded (examplePod ''web-1'')
      :: (bool, unit) DeploymentEvent] \<and>
   (case snd (Track exampleEnv
          [resourceAdded (exampleDeployment False), podAdded (examplePod ''web-1''),
           podDone ''web-1'', podAdded (examplePod ''web-1'')
           :: (bool, unit) DeploymentEvent]) of
      Continue d' \<Rightarrow> distinct (dep_TrackedPods d')
    | _ \<Rightarrow> False)"
  using C2_one_tracker_per_Added
    [of exampleEnv "NewTracker :: (bool, unit) Tracker" "examplePod ''web-1''" True
        "[resourceAdded (exampleDeployment False), podAdded (examplePod ''web-1''),
          podDone ''web-1'', podAdded (examplePod ''web-1'')]"]
  by (simp add: Let_def Track_def exampleEnv_def exampleDeployment_def examplePod_def
      handleDeploymentState_def NewTracker_def NewDeploymentStatus_def
      runReplicaSetsInformer_def runPodsInformer_def runEventsInformer_def runPodTracker_def)

text \<open>
  C3 as stated fails for the DaemonSet tracker: the controller is ready when it is added,
  and each of the two Modified events that follow, ready as before, sends Ready.
\<close>

theorem C3_daemonset_Ready_without_edge:
  "fst (DaemonSet_Track exampleDaemonSetEnv
          [ds_resourceAdded (exampleDaemonSet True), ds_resourceModified (exampleDaemonSet True),
           ds_resourceModified (exampleDaemonSet True)])
     = [run_DaemonSetInformer, send_ds_StatusReport (exampleDaemonSetReport True),
        send_ds_Added True, run_ds_PodsInformer, run_ds_EventsInformer,
        send_ds_StatusReport (exampleDaemonSetReport True), send_ds_Ready True,
        send_ds_StatusReport (exampleDaemonSetReport True), send_ds_Ready True]"
  by (simp add: Let_def DaemonSet_Track_def exampleDaemonSetEnv_def exampleDaemonSet_def
      exampleDaemonSetReport_def handleDaemonSetStatus_def NewDaemonSetTracker_def
      NewDaemonSetStatus_def ds_runPodsInformer_def ds_runEventsInformer_def)

text \<open>
  C3, as the code has it. The Deployment tracker sends Ready only on a Modified event,
  once, when the snapshot is handled, the readiness remembered from the snapshot handled
  before is false (it counts as false while there is no last object) and the readiness
  computed anew is true; the readiness computed for a handled snapshot is what the next
  one finds remembered. The DaemonSet tracker sends Ready only on a Modified event, once,
  whenever the rollout status computed for the snapshot is ready without an error,
  whatever the snapshot before was.
\<close>

theorem C3_Ready_on_Modified:
  "filter dep_isReady (fst (Track_select env d ev)) =
     (case ev of
        resourceModified object \<Rightarrow>
          (if handles env object \<and> \<not> prevReady d \<and> newReady env d object
           then [send_dep_Ready True] else [])
      | _ \<Rightarrow> []) \<and>
   (handles env object \<longrightarrow>
      (case snd (Track_select env d (resourceModified object)) of
         Continue d' \<Rightarrow> prevReady d' = newReady env d object
       | _ \<Rightarrow> False) \<and>
      (case snd (Track_select env d (resourceAdded object)) of
         Continue d' \<Rightarrow> prevReady d' = newReady env d object
       | _ \<Rightarrow> False)) \<and>
   filter ds_isReady (fst (DaemonSet_Track_select env' ds ev')) =
     (case ev' of
        ds_resourceModified object' \<Rightarrow>
          (if handleDaemonSetStatus env' object' = (True, None)
           then [send_ds_Ready True] else [])
      | _ \<Rightarrow> [])"
proof (intro conjI impI)
  show "filter dep_isReady (fst (Track_select env d ev)) =
     (case ev of
        resourceModified object \<Rightarrow>
          (if handles env object \<and> \<not> prevReady d \<and> newReady env d object
           then [send_dep_Ready True] else [])
      | _ \<Rightarrow> [])"
    by (rule Track_select_Ready_shape)
next
  assume h: "handles env object"
  from Track_select_resourceModified_handles [OF h, of d]
  show "case snd (Track_select env d (resourceModified object)) of
         Continue d' \<Rightarrow> prevReady d' = newReady env d object
       | _ \<Rightarrow> False"
    by (auto simp: prevReady_def)
next
  assume h: "handles env object"
  from Track_select_resourceAdded_handles [OF h, of d]
  show "case snd (Track_select env d (resourceAdded object)) of
         Continue d' \<Rightarrow> prevReady d' = newReady env d object
       | _ \<Rightarrow> False"
    by (auto simp: prevReady_def)
next
  show "filter ds_isReady (fst (DaemonSet_Track_select env' ds ev')) =
     (case ev' of
        ds_resourceModified object' \<Rightarrow>
          (if handleDaemonSetStatus env' object' = (True, None)
           then [send_ds_Ready True] else [])
      | _ \<Rightarrow> [])"
    by (rule DaemonSet_Track_select_Ready_shape)
qed

theorem C3_Ready_on_Modified_witness:
  "handles exampleEnv (exampleDeployment True) \<and>
   filter dep_isReady
     (fst (Track_select exampleEnv (NewTracker :: (bool, unit) Tracker)
             (resourceModified (exampleDeployment True)))) = [send_dep_Ready True] \<and>
   (case snd (Track_select exampleEnv (NewTracker :: (bool, unit) Tracker)
                (resourceModified (exampleDeployment True))) of
      Continue d' \<Rightarrow> prevReady d'
    | _ \<Rightarrow> False) \<and>
   filter ds_isReady
     (fst (DaemonSet_Track_select exampleDaemonSetEnv
             (NewDaemonSetTracker :: (bool, unit) DaemonSetTracker)
             (ds_resourceModified (exampleDaemonSet True)))) = [send_ds_Ready True]"
  using C3_Ready_on_Modified
    [of exampleEnv "NewTracker :: (bool, unit) Tracker"
        "resourceModified (exampleDeployment True)" "exampleDeployment True"
        exampleDaemonSetEnv "NewDaemonSetTracker :: (bool, unit) DaemonSetTracker"
        "ds_resourceModified (exampleDaemonSet True)"]
  by (simp add: handles_def prevReady_def newReady_def exampleEnv_def exampleDeployment_def
      NewTracker_def exampleDaemonSetEnv_def exampleDaemonSet_def handleDaemonSetStatus_def
      split: outcome.splits)

text \<open>
  C5 as stated fails for the DaemonSet tracker: a classified failure sends Failed and
  nothing before it; no StatusReport is sent.
\<close>

theorem C5_daemonset_no_StatusReport:
  "fst (DaemonSet_Track exampleDaemonSetEnv
          [ds_resourceAdded (exampleDaemonSet False), ds_resourceFailed ''FailedCreate''])
     = [run_DaemonSetInformer, send_ds_StatusReport (exampleDaemonSetReport False),
        send_ds_Added False, run_ds_PodsInformer, run_ds_EventsInformer,
        send_ds_Failed ''FailedCreate'']"
  by (simp add: Let_def DaemonSet_Track_def exampleDaemonSetEnv_def exampleDaemonSet_def
      exampleDaemonSetReport_def handleDaemonSetStatus_def NewDaemonSetTracker_def
      NewDaemonSetStatus_def ds_runPodsInformer_def ds_runEventsInformer_def)

text \<open>
  C5, as the code has it. On a classified failure the Deployment tracker sets its state
  to Failed and records the reason; when it has a last object it sends a StatusReport
  that carries the failure and the reason, then Failed with the reason; when it has none
  it sends Failed only. The DaemonSet tracker sets its state to Failed and sends Failed
  with the reason: it keeps no reason and sends no StatusReport.
\<close>

theorem C5_on_resourceFailed:
  "Track_select env d (resourceFailed reason) =
     (case dep_lastObject d of
        None \<Rightarrow>
          ([send_dep_Failed reason],
           Continue (d\<lparr>dep_State := ''Failed'', failedReason := reason\<rparr>))
      | Some lastObject \<Rightarrow>
          (case Replicas (dep_Spec lastObject) of
             None \<Rightarrow> ([], Panic)
           | Some n \<Rightarrow>
               ([send_dep_StatusReport
                   \<lparr>Pods = podStatuses d, embedded_DeploymentStatus = dep_Status lastObject,
                    DesiredReplicas = n, IsFailed = True, FailedReason = reason,
                    ReadyStatus = readyStatus d\<rparr>,
                 send_dep_Failed reason],
                Continue (d\<lparr>dep_State := ''Failed'', failedReason := reason\<rparr>)))) \<and>
   DaemonSet_Track_select env' ds (ds_resourceFailed reason) =
     ([send_ds_Failed reason], Continue (ds\<lparr>ds_State := ''Failed''\<rparr>))"
  by (simp add: NewDeploymentStatus_def Let_def split: option.splits)

text \<open>
  C8 as stated fails: when the loop receives Modified before Added, with a ready
  deployment, Ready is sent before Added.
\<close>

theorem C8_Ready_before_Added:
  "fst (Track exampleEnv
          [resourceModified (exampleDeployment True), resourceAdded (exampleDeployment True)])
     = [run_DeploymentInformer, send_dep_StatusReport (exampleReport True),
        send_dep_Ready True, send_dep_StatusReport (exampleReport True),
        send_dep_Added False, run_ReplicaSetsInformer, run_dep_PodsInformer,
        run_dep_EventsInformer (exampleDeployment True)]"
  by (simp add: Let_def Track_def exampleEnv_def exampleDeployment_def exampleReport_def
      handleDeploymentState_def NewTracker_def NewDeploymentStatus_def
      runReplicaSetsInformer_def runPodsInformer_def runEventsInformer_def)

text \<open>
  C8, as the code has it, for both trackers. A run of Track sends Added at most once; it
  is sent only on an Added of the controller that finds the state empty, and that pass
  sets the state to Started. The Added comes before every Ready and Failed of the run
  provided the Added of the controller is the first message about the controller that
  the loop receives (no Modified, Deleted or classified failure before it).
\<close>

theorem C8_Added_once:
  "length (filter dep_isAdded (fst (Track env evs))) \<le> 1 \<and>
   (send_dep_Added ready \<in> set (fst (Track_select env d ev)) \<longrightarrow>
      (\<exists>object d'. ev = resourceAdded object \<and> dep_State d = [] \<and>
          snd (Track_select env d ev) = Continue d' \<and> dep_State d' = ''Started'')) \<and>
   (dep_AddedFirst evs \<longrightarrow> dep_AddedPrecedes (fst (Track env evs))) \<and>
   length (filter ds_isAdded (fst (DaemonSet_Track env' evs'))) \<le> 1 \<and>
   (send_ds_Added ready' \<in> set (fst (DaemonSet_Track_select env' ds ev')) \<longrightarrow>
      (\<exists>object d'. ev' = ds_resourceAdded object \<and> ds_State ds = [] \<and>
          snd (DaemonSet_Track_select env' ds ev') = Continue d' \<and> ds_State d' = ''Started'')) \<and>
   (ds_AddedFirst evs' \<longrightarrow> ds_AddedPrecedes (fst (DaemonSet_Track env' evs')))"
proof (intro conjI impI)
  show "length (filter dep_isAdded (fst (Track env evs))) \<le> 1"
    using Track_loop_Added_once [of env NewTracker evs] by (simp add: Track_def split_beta)
next
  assume a: "send_dep_Added ready \<in> set (fst (Track_select env d ev))"
  then have "filter dep_isAdded (fst (Track_select env d ev)) \<noteq> []"
    by (rule dep_Added_in_filter)
  then obtain object where ev: "ev = resourceAdded object"
    and h: "handles env object" and s: "dep_State d = []"
    using Track_select_Added_shape [of env d ev]
    by (auto split: DeploymentEvent.splits if_splits)
  from Track_select_resourceAdded_handles [OF h, of d] s ev
  show "\<exists>object d'. ev = resourceAdded object \<and> dep_State d = [] \<and>
          snd (Track_select env d ev) = Continue d' \<and> dep_State d' = ''Started''"
    by auto
next
  assume "dep_AddedFirst evs"
  then show "dep_AddedPrecedes (fst (Track env evs))"
    using Track_loop_AddedPrecedes [of NewTracker evs env]
    by (simp add: Track_def split_beta NewTracker_def)
next
  show "length (filter ds_isAdded (fst (DaemonSet_Track env' evs'))) \<le> 1"
    using DaemonSet_Track_loop_Added_once [of env' NewDaemonSetTracker evs']
    by (simp add: DaemonSet_Track_def split_beta)
next
  assume a: "send_ds_Added ready' \<in> set (fst (DaemonSet_Track_select env' ds ev'))"
  then have "filter ds_isAdded (fst (DaemonSet_Track_select env' ds ev')) \<noteq> []"
    by (rule ds_Added_in_filter)
  then obtain object where ev: "ev' = ds_resourceAdded object"
    and h: "snd (handleDaemonSetStatus env' object) = None" and s: "ds_State ds = []"
    using DaemonSet_Track_select_Added_shape [of env' ds ev']
    by (auto split: DaemonSetEvent.splits if_splits)
  show "\<exists>object d'. ev' = ds_resourceAdded object \<and> ds_State ds = [] \<and>
          snd (DaemonSet_Track_select env' ds ev') = Continue d' \<and> ds_State d' = ''Started''"
    using ev h s by (cases "handleDaemonSetStatus env' object") (simp add: Let_def)
next
  assume "ds_AddedFirst evs'"
  then show "ds_AddedPrecedes (fst (DaemonSet_Track env' evs'))"
    using DaemonSet_Track_loop_AddedPrecedes [of NewDaemonSetTracker evs' env']
    by (simp add: DaemonSet_Track_def split_beta NewDaemonSetTracker_def)
qed

theorem C8_Added_once_witness:
  "send_dep_Added False \<in>
     set (fst (Track_select exampleEnv (NewTracker :: (bool, unit) Tracker)
                 (resourceAdded (exampleDeployment False)))) \<and>
   dep_AddedFirst
     [podAdded (examplePod ''web-1''), resourceAdded (exampleDeployment False),
      resourceModified (exampleDeployment True), resourceAdded (exampleDeployment True)
      :: (bool, unit) DeploymentEvent] \<and>
   dep_AddedPrecedes
     (fst (Track exampleEnv
        [podAdded (examplePod ''web-1''), resourceAdded (exampleDeployment False),
         resourceModified (exampleDeployment True), resourceAdded (exampleDeployment True)
         :: (bool, unit) DeploymentEvent])) \<and>
   length (filter dep_isAdded
     (fst (Track exampleEnv
        [podAdded (examplePod ''web-1''), resourceAdded (exampleDeployment False),
         resourceModified (exampleDeployment True), resourceAdded (exampleDeployment True)
         :: (bool, unit) DeploymentEvent]))) = 1 \<and>
   send_ds_Added False \<in>
     set (fst (DaemonSet_Track_select exampleDaemonSetEnv
                 (NewDaemonSetTracker :: (bool, unit) DaemonSetTracker)
                 (ds_resourceAdded (exampleDaemonSet False)))) \<and>
   ds_AddedFirst
     [ds_resourceAdded (exampleDaemonSet False), ds_resourceModified (exampleDaemonSet True),
      ds_resourceAdded (exampleDaemonSet True) :: (bool, unit) DaemonSetEvent] \<and>
   ds_AddedPrecedes
     (fst (DaemonSet_Track exampleDaemonSetEnv
        [ds_resourceAdded (exampleDaemonSet False), ds_resourceModified (exampleDaemonSet True),
         ds_resourceAdded (exampleDaemonSet True) :: (bool, unit) DaemonSetEvent])) \<and>
   length (filter ds_isAdded
     (fst (DaemonSet_Track exampleDaemonSetEnv
        [ds_resourceAdded (exampleDaemonSet False), ds_resourceModified (exampleDaemonSet True),
         ds_resourceAdded (exampleDaemonSet True) :: (bool, unit) DaemonSetEvent]))) = 1"
  using C8_Added_once
    [of exampleEnv
        "[podAdded (examplePod ''web-1''), resourceAdded (exampleDeployment False),
          resourceModified (exampleDeployment True), resourceAdded (exampleDeployment True)
          :: (bool, unit) DeploymentEvent]"
        False "NewTracker :: (bool, unit) Tracker" "resourceAdded (exampleDeployment False)"
        exampleDaemonSetEnv
        "[ds_resourceAdded (exampleDaemonSet False), ds_resourceModified (exampleDaemonSet True),
          ds_resourceAdded (exampleDaemonSet True) :: (bool, unit) DaemonSetEvent]"
        False "NewDaemonSetTracker :: (bool, unit) DaemonSetTracker"
        "ds_resourceAdded (exampleDaemonSet False)"]
  by (simp add: Let_def Track_def exampleEnv_def exampleDeployment_def examplePod_def
      handleDeploymentState_def NewTracker_def NewDeploymentStatus_def
      runReplicaSetsInformer_def runPodsInformer_def runEventsInformer_def runPodTracker_def
      DaemonSet_Track_def exampleDaemonSetEnv_def exampleDaemonSet_def
      handleDaemonSetStatus_def NewDaemonSetTracker_def NewDaemonSetStatus_def
      ds_runPodsInformer_def ds_runEventsInformer_def)

text \<open>
  C10. On every Added of the controller whose snapshot is handled (the handler neither
  fails nor panics), the Deployment tracker starts the replica-set informer, the pods
  informer and the events informer, whatever its state; the test on the state only
  guards the move to Started and the send of Added, so an Added received in another
  state starts the three informers again, sends no Added and leaves the state as it is.
\<close>

theorem C10_informers_on_every_Added:
  "handles env object \<Longrightarrow>
     \<exists>report d'.
       Track_select env d (resourceAdded object) =
         (send_dep_StatusReport report
            # (if dep_State d = []
               then [send_dep_Added (\<not> prevReady d \<and> newReady env d object)] else [])
            @ [run_ReplicaSetsInformer, run_dep_PodsInformer, run_dep_EventsInformer object],
          Continue d') \<and>
       dep_State d' = (if dep_State d = [] then ''Started'' else dep_State d)"
  using Track_select_resourceAdded_handles [of env object d] by blast

theorem C10_informers_on_every_Added_witness:
  "handles exampleEnv (exampleDeployment True) \<and>
   (\<exists>report d'.
      Track_select exampleEnv ((NewTracker :: (bool, unit) Tracker)\<lparr>dep_State := ''Started''\<rparr>)
         (resourceAdded (exampleDeployment True)) =
        ([send_dep_StatusReport report, run_ReplicaSetsInformer, run_dep_PodsInformer,
          run_dep_EventsInformer (exampleDeployment True)], Continue d') \<and>
      dep_State d' = ''Started'')"
proof -
  have h: "handles exampleEnv (exampleDeployment True)"
    by (simp add: handles_def exampleEnv_def exampleDeployment_def)
  from C10_informers_on_every_Added
    [OF h, of "(NewTracker :: (bool, unit) Tracker)\<lparr>dep_State := ''Started''\<rparr>"]
  show ?thesis using h by (simp add: NewTracker_def)
qed

end
